theory Spec2Isabelle
  imports Complex_Main "HOL-Library.Log_Nat" "HOL-Library.Word"
begin

section \<open>The convolution benchmark driver of cudnn\_conv\_driver.hpp\<close>

text \<open>
  The header defines one class, \<open>CudnnConvDriver\<close>: a constructor, the public member
  \<open>run\<close>, and the private members \<open>createCudnnConv\<close>, \<open>forward\<close>,
  \<open>backwardFilter\<close> and \<open>backwardData\<close>. Everything the class does beyond computing a
  value is a call into a collaborator (the problem catalog, the convolution engine, the
  tensor factory, the CUDA runtime, the steady clock). Each such call is recorded as an
  \<open>event\<close> appended to a trace, so that the order and the number of the calls can be
  stated. Members are mutated in place by the source; here every function takes the
  driver and the world and returns them updated.
\<close>

subsection \<open>Data\<close>

text \<open>
  \<open>enum class CudnnConvMethod { FORWARD, BACKWARD_DATA, BACKWARD_FILTER }\<close> is a scoped
  enumeration without a fixed underlying type, so its underlying type is \<open>int\<close> and an
  object of the type can hold every \<open>int\<close> value, not only the three enumerators. The
  type is therefore modelled by its underlying value; the \<open>switch\<close> of \<open>run\<close> compares
  that value with the enumerators.
\<close>

type_synonym CudnnConvMethod = int

definition FORWARD :: CudnnConvMethod where
  "FORWARD = 0"

definition BACKWARD_DATA :: CudnnConvMethod where
  "BACKWARD_DATA = 1"

definition BACKWARD_FILTER :: CudnnConvMethod where
  "BACKWARD_FILTER = 2"

text \<open>
  The tuple of eleven \<open>int\<close>s that \<open>problems_.get\<close> returns and \<open>std::tie\<close> unpacks, in
  the order \<open>w, h, c, n, k, r, s, pad_w, pad_h, wstride, hstride\<close>.
\<close>

type_synonym ProblemShape =
  "int \<times> int \<times> int \<times> int \<times> int \<times> int \<times> int \<times> int \<times> int \<times> int \<times> int"

type_synonym CudnnConvProblemSet = "ProblemShape list"

text \<open>
  What can end a call other than a returned value: the exception of the catalog lookup,
  and the places where the C++ standard leaves the behaviour undefined: \<open>gpus_[0]\<close> on
  an empty vector, division by zero, a floating-point value converted to an \<open>int\<close> that
  cannot represent its truncation, a signed subtraction whose result does not fit its
  type, and the read of a member that was never assigned.
\<close>

datatype failure =
    IndexError
  | VectorSubscriptOutOfRange
  | DivisionByZero
  | FloatToIntOutOfRange
  | SignedOverflow
  | IndeterminateValue

text \<open>
  A created handle \<open>curandGenerator_t\<close> together with the generator state it points to:
  the seed, and how many buffers were filled from it.
\<close>

record curandGenerator_t =
  gen_seed :: nat
  gen_fills :: nat

text \<open>
  The engine object \<open>CudnnConv\<close> is identified by its constructor arguments: the eleven
  shape parameters and the device number.
\<close>

record CudnnConv =
  conv_shape :: ProblemShape
  conv_device :: int

text \<open>A tensor is identified by the factory call that made it and by its dimensions.\<close>

datatype Tensor = Rand "int list" | Zeros "int list"

datatype event =
    CudaFree
  | CurandCreateGenerator
  | CurandSetSeed nat
  | ProblemSetGet int
  | CudnnConvNew ProblemShape int
  | InitForward
  | InitBackwardData
  | InitBackwardFilter
  | GetOutputDims
  | TensorRand "int list"
  | TensorZeros "int list"
  | ConvForward Tensor Tensor Tensor
  | ConvBackwardFilter Tensor Tensor Tensor
  | ConvBackwardData Tensor Tensor Tensor
  | CudaDeviceSynchronize
  | SteadyClockNow

text \<open>
  The world outside the driver. \<open>trace\<close> is the list of collaborator calls made so far,
  oldest first. The remaining fields are what the environment answers: the \<open>k\<close>-th
  reading of \<open>std::chrono::steady_clock\<close>, a signed 64-bit count of ticks of one
  nanosecond (\<open>clock_reads\<close> counts the readings taken), the dimensions an engine reports from
  \<open>get_output_dims\<close>, and the status codes that \<open>cudaFree\<close> and
  \<open>curandCreateGenerator\<close> return (0 is success for both).
\<close>

record world =
  trace :: "event list"
  clock_reads :: nat
  steady_clock :: "nat \<Rightarrow> 64 word"
  output_dims :: "CudnnConv \<Rightarrow> int list"
  cudaFree_status :: int
  curandCreateGenerator_status :: int

text \<open>
  The data members of \<open>CudnnConvDriver\<close>. A name cannot end in an underscore here, so
  each member \<open>x_\<close> of the source is written \<open>x_'\<close>.
\<close>

record CudnnConvDriver =
  num_repeats_' :: int
  curand_gen_' :: curandGenerator_t
  method_' :: CudnnConvMethod
  problems_' :: CudnnConvProblemSet
  k_' :: int
  c_' :: int
  r_' :: int
  s_' :: int
  n_' :: int
  w_' :: int
  h_' :: int
  pad_w_' :: int
  pad_h_' :: int
  wstride_' :: int
  hstride_' :: int
  gpus_' :: "int list"

subsection \<open>Collaborators\<close>

definition emit :: "event \<Rightarrow> world \<Rightarrow> world" where
  "emit e w = w\<lparr>trace := trace w @ [e]\<rparr>"

text \<open>The events a call added to the trace.\<close>

definition emitted :: "world \<Rightarrow> world \<Rightarrow> event list" where
  "emitted w w' = drop (length (trace w)) (trace w')"

text \<open>
  Modelled from the spec: \<open>CudnnConvProblemSet::get\<close> (cudnn\_problem\_set.hpp is not
  among the sources). The spec gives the catalog as an ordered collection addressed by a
  zero-based index, \<open>get(index) \<rightarrow> ProblemShape | IndexError\<close>, the error for an index
  out of the valid range.
\<close>

definition CudnnConvProblemSet_get ::
    "CudnnConvProblemSet \<Rightarrow> int \<Rightarrow> world \<Rightarrow> (failure + ProblemShape) \<times> world" where
  "CudnnConvProblemSet_get problems index w =
     (if 0 \<le> index \<and> index < int (length problems)
      then (Inr (problems ! nat index), emit (ProblemSetGet index) w)
      else (Inl IndexError, emit (ProblemSetGet index) w))"

text \<open>
  The calls into cudnn\_conv.hpp and tensor.hpp, which are not among the sources either.
  Only the fact of the call and its arguments are recorded; what an engine computes is
  outside the driver. \<open>TensorCreate::rand\<close> draws from the generator and so advances
  it. These calls are taken to return: an exception raised inside the engine or the
  tensor factory is outside this model.
\<close>

definition CudnnConv_new ::
    "ProblemShape \<Rightarrow> int \<Rightarrow> world \<Rightarrow> CudnnConv \<times> world" where
  "CudnnConv_new shape deviceNumber w =
     (\<lparr>conv_shape = shape, conv_device = deviceNumber\<rparr>,
      emit (CudnnConvNew shape deviceNumber) w)"

definition initForward :: "CudnnConv \<Rightarrow> world \<Rightarrow> world" where
  "initForward conv w = emit InitForward w"

definition initBackwardData :: "CudnnConv \<Rightarrow> world \<Rightarrow> world" where
  "initBackwardData conv w = emit InitBackwardData w"

definition initBackwardFilter :: "CudnnConv \<Rightarrow> world \<Rightarrow> world" where
  "initBackwardFilter conv w = emit InitBackwardFilter w"

definition get_output_dims :: "CudnnConv \<Rightarrow> world \<Rightarrow> int list \<times> world" where
  "get_output_dims conv w = (output_dims w conv, emit GetOutputDims w)"

definition TensorCreate_rand ::
    "int list \<Rightarrow> curandGenerator_t \<Rightarrow> world \<Rightarrow> Tensor \<times> curandGenerator_t \<times> world" where
  "TensorCreate_rand dims gen w =
     (Rand dims, gen\<lparr>gen_fills := Suc (gen_fills gen)\<rparr>, emit (TensorRand dims) w)"

definition TensorCreate_zeros :: "int list \<Rightarrow> world \<Rightarrow> Tensor \<times> world" where
  "TensorCreate_zeros dims w = (Zeros dims, emit (TensorZeros dims) w)"

definition conv_forward :: "CudnnConv \<Rightarrow> Tensor \<Rightarrow> Tensor \<Rightarrow> Tensor \<Rightarrow> world \<Rightarrow> world" where
  "conv_forward conv x filter' y w = emit (ConvForward x filter' y) w"

definition conv_backwardFilter ::
    "CudnnConv \<Rightarrow> Tensor \<Rightarrow> Tensor \<Rightarrow> Tensor \<Rightarrow> world \<Rightarrow> world" where
  "conv_backwardFilter conv x delta dW w = emit (ConvBackwardFilter x delta dW) w"

definition conv_backwardData ::
    "CudnnConv \<Rightarrow> Tensor \<Rightarrow> Tensor \<Rightarrow> Tensor \<Rightarrow> world \<Rightarrow> world" where
  "conv_backwardData conv filter' delta dX w = emit (ConvBackwardData filter' delta dX) w"

text \<open>
  The CUDA runtime and cuRAND calls. Each returns a status code and never throws.
  \<open>curandCreateGenerator\<close> stores a fresh handle through its first argument only when
  it succeeds, and otherwise stores nothing (\<open>None\<close>);
  \<open>curandSetPseudoRandomGeneratorSeed\<close> is given a handle by value, and on the handle
  of a created pseudo-random generator it succeeds.
\<close>

definition cudaFree :: "world \<Rightarrow> int \<times> world" where
  "cudaFree w = (cudaFree_status w, emit CudaFree w)"

definition cudaDeviceSynchronize :: "world \<Rightarrow> world" where
  "cudaDeviceSynchronize w = emit CudaDeviceSynchronize w"

definition curandCreateGenerator ::
    "world \<Rightarrow> int \<times> curandGenerator_t option \<times> world" where
  "curandCreateGenerator w =
     (curandCreateGenerator_status w,
      if curandCreateGenerator_status w = 0
      then Some \<lparr>gen_seed = 0, gen_fills = 0\<rparr> else None,
      emit CurandCreateGenerator w)"

definition curandSetPseudoRandomGeneratorSeed ::
    "curandGenerator_t \<Rightarrow> nat \<Rightarrow> world \<Rightarrow> int \<times> curandGenerator_t \<times> world" where
  "curandSetPseudoRandomGeneratorSeed gen seed w =
     (0, gen\<lparr>gen_seed := seed\<rparr>, emit (CurandSetSeed seed) w)"

definition steady_clock_now :: "world \<Rightarrow> 64 word \<times> world" where
  "steady_clock_now w =
     (steady_clock w (clock_reads w),
      emit SteadyClockNow (w\<lparr>clock_reads := Suc (clock_reads w)\<rparr>))"

subsection \<open>Double-precision arithmetic\<close>

text \<open>
  A \<open>double\<close> is an IEEE binary64 number, and a conversion from an integer or a
  division returns the representable number nearest to the exact result, the one with
  the even significand when two are equally near. (For an integer that no \<open>double\<close>
  represents, the C++ standard leaves the choice between the two neighbours to the
  implementation; an implementation of IEEE 754 takes the nearest.) A finite
  \<open>double\<close> is modelled by the real number it denotes. \<open>round_half_even\<close> is the
  nearest integer, ties to even; \<open>ilog2 x\<close> is the position of the leading bit of a
  positive \<open>x\<close>, that is \<open>\<lfloor>log\<^sub>2 x\<rfloor>\<close>;
  \<open>round_double\<close> keeps the 53 leading bits. The exponent is left unbounded: binary64
  agrees with this wherever the magnitude lies between \<open>2 powi - 1022\<close> and
  \<open>2 powi 1024\<close>, and what the driver computes from a 64-bit tick count and a 32-bit
  repeat count is either zero or lies between \<open>2 powi - 41\<close> and \<open>2 powi 63\<close>.
\<close>

definition round_half_even :: "real \<Rightarrow> int" where
  "round_half_even x =
     (let f = \<lfloor>x\<rfloor>; r = x - of_int f
      in if r < 1 / 2 then f else if 1 / 2 < r then f + 1
         else if even f then f else f + 1)"

definition ilog2 :: "real \<Rightarrow> int" where
  "ilog2 x = (if 1 \<le> x then bitlen \<lfloor>x\<rfloor> - 1 else - bitlen (\<lceil>1 / x\<rceil> - 1))"

definition round_double :: "real \<Rightarrow> real" where
  "round_double x =
     (if x = 0 then 0
      else let e = ilog2 \<bar>x\<bar> - 52
           in of_int (round_half_even (x / 2 powi e)) * 2 powi e)"

text \<open>
  The conversion of an integer to \<open>double\<close> (exact up to \<open>2 ^ 53\<close> in magnitude,
  rounded above), and the division of two doubles.
\<close>

definition double_of_int :: "int \<Rightarrow> real" where
  "double_of_int z = round_double (of_int z)"

definition double_div :: "real \<Rightarrow> real \<Rightarrow> real" where
  "double_div a b = round_double (a / b)"

subsection \<open>The reduction of the two timestamps\<close>

text \<open>
  \<open>static_cast<int>(std::chrono::duration<double, std::micro>(end - start).count() / num_repeats_)\<close>.
  The difference of the two time points is a signed 64-bit count of nanoseconds; the
  subtraction is undefined when the difference does not fit. The conversion to
  \<open>duration<double, std::micro>\<close> turns the count into a \<open>double\<close> and divides it by
  \<open>1000.0\<close>. The division by \<open>num_repeats_\<close> converts that \<open>int\<close> to \<open>double\<close>
  first; the standard leaves a division by zero undefined. A conversion from floating
  point to \<open>int\<close> truncates toward zero, and is undefined when the truncated value is
  not an \<open>int\<close> (32 bits).
\<close>

definition duration_micro :: "int \<Rightarrow> real" where
  "duration_micro ticks = double_div (double_of_int ticks) 1000"

definition truncate :: "real \<Rightarrow> int" where
  "truncate x = (if 0 \<le> x then \<lfloor>x\<rfloor> else \<lceil>x\<rceil>)"

definition static_cast_int :: "real \<Rightarrow> failure + int" where
  "static_cast_int x =
     (if - 2147483648 \<le> truncate x \<and> truncate x \<le> 2147483647
      then Inr (truncate x) else Inl FloatToIntOutOfRange)"

definition average_time :: "64 word \<Rightarrow> 64 word \<Rightarrow> int \<Rightarrow> failure + int" where
  "average_time start stop num_repeats =
     (let ticks = sint stop - sint start
      in if ticks < - (2 ^ 63) \<or> 2 ^ 63 \<le> ticks then Inl SignedOverflow
         else if num_repeats = 0 then Inl DivisionByZero
         else static_cast_int (double_div (duration_micro ticks) (double_of_int num_repeats)))"

subsection \<open>The driver\<close>

text \<open>
  The constructor. The member initialisers set \<open>num_repeats_\<close>, \<open>gpus_\<close>, \<open>method_\<close> and
  \<open>problems_\<close>; the other members keep whatever the storage \<open>raw\<close> held. The body calls
  \<open>cudaFree(0)\<close>, \<open>curandCreateGenerator\<close> and \<open>curandSetPseudoRandomGeneratorSeed\<close>
  and discards the three status codes; no statement of the constructor throws. When
  \<open>curandCreateGenerator\<close> has stored nothing, \<open>curand_gen_\<close> is still unassigned where
  the next line reads it to pass it on: the behaviour is undefined from there.
\<close>

definition CudnnConvDriver_new ::
    "CudnnConvMethod \<Rightarrow> CudnnConvProblemSet \<Rightarrow> int \<Rightarrow> int list \<Rightarrow> CudnnConvDriver \<Rightarrow> world
      \<Rightarrow> (failure + CudnnConvDriver) \<times> world" where
  "CudnnConvDriver_new method problems numRuns gpus raw w =
     (let d = raw\<lparr>num_repeats_' := numRuns, gpus_' := gpus, method_' := method,
                   problems_' := problems\<rparr>;
          (st1, w1) = cudaFree w;
          (st2, created, w2) = curandCreateGenerator w1
      in case created of
           None \<Rightarrow> (Inl IndeterminateValue, w2)
         | Some gen2 \<Rightarrow>
             (let (st3, gen3, w3) = curandSetPseudoRandomGeneratorSeed gen2 42 w2
              in (Inr (d\<lparr>curand_gen_' := gen3\<rparr>), w3)))"

text \<open>
  \<open>for (int i = 0; i < num_repeats_; ++i) body;\<close> The bodies of the three loops only
  call the engine, so the loop state is the world.
\<close>

function for_loop :: "int \<Rightarrow> int \<Rightarrow> (world \<Rightarrow> world) \<Rightarrow> world \<Rightarrow> world" where
  "for_loop i n body w = (if i < n then for_loop (i + 1) n body (body w) else w)"
  by pat_completeness auto
termination
  by (relation "measure (\<lambda>(i, n, body, w). nat (n - i))") auto

declare for_loop.simps [simp del]

definition createCudnnConv ::
    "int \<Rightarrow> int \<Rightarrow> CudnnConvDriver \<Rightarrow> world \<Rightarrow> (failure + CudnnConv) \<times> CudnnConvDriver \<times> world" where
  "createCudnnConv problemNumber deviceNumber d w =
     (case CudnnConvProblemSet_get (problems_' d) problemNumber w of
        (Inl e, w1) \<Rightarrow> (Inl e, d, w1)
      | (Inr (w', h', c', n', k', r', s', pad_w', pad_h', wstride', hstride'), w1) \<Rightarrow>
          (let d1 = d\<lparr>w_' := w', h_' := h', c_' := c', n_' := n', k_' := k', r_' := r', s_' := s',
                        pad_w_' := pad_w', pad_h_' := pad_h',
                        wstride_' := wstride', hstride_' := hstride'\<rparr>;
               (conv, w2) = CudnnConv_new
                  (w_' d1, h_' d1, c_' d1, n_' d1, k_' d1, r_' d1, s_' d1,
                   pad_w_' d1, pad_h_' d1, wstride_' d1, hstride_' d1) deviceNumber w1
           in (Inr conv, d1, w2)))"

definition forward ::
    "CudnnConv \<Rightarrow> CudnnConvDriver \<Rightarrow> world \<Rightarrow> (failure + int) \<times> CudnnConvDriver \<times> world" where
  "forward conv d w =
     (let (filter', g1, w1) = TensorCreate_rand [r_' d, s_' d, c_' d, k_' d] (curand_gen_' d) w;
          (input, g2, w2) = TensorCreate_rand [w_' d, h_' d, c_' d, n_' d] g1 w1;
          (dims, w3) = get_output_dims conv w2;
          (output, w4) = TensorCreate_zeros dims w3;
          w5 = conv_forward conv input filter' output w4;
          w6 = cudaDeviceSynchronize w5;
          (start, w7) = steady_clock_now w6;
          w8 = for_loop 0 (num_repeats_' d) (conv_forward conv input filter' output) w7;
          w9 = cudaDeviceSynchronize w8;
          (stop, w10) = steady_clock_now w9
      in (average_time start stop (num_repeats_' d), d\<lparr>curand_gen_' := g2\<rparr>, w10))"

definition backwardFilter ::
    "CudnnConv \<Rightarrow> CudnnConvDriver \<Rightarrow> world \<Rightarrow> (failure + int) \<times> CudnnConvDriver \<times> world" where
  "backwardFilter conv d w =
     (let (input, g1, w1) = TensorCreate_rand [w_' d, h_' d, c_' d, n_' d] (curand_gen_' d) w;
          (dims, w2) = get_output_dims conv w1;
          (delta, g2, w3) = TensorCreate_rand dims g1 w2;
          (dW, w4) = TensorCreate_zeros [r_' d, s_' d, c_' d, k_' d] w3;
          w5 = conv_backwardFilter conv input delta dW w4;
          w6 = cudaDeviceSynchronize w5;
          (start, w7) = steady_clock_now w6;
          w8 = for_loop 0 (num_repeats_' d) (conv_backwardFilter conv input delta dW) w7;
          w9 = cudaDeviceSynchronize w8;
          (stop, w10) = steady_clock_now w9
      in (average_time start stop (num_repeats_' d), d\<lparr>curand_gen_' := g2\<rparr>, w10))"

definition backwardData ::
    "CudnnConv \<Rightarrow> CudnnConvDriver \<Rightarrow> world \<Rightarrow> (failure + int) \<times> CudnnConvDriver \<times> world" where
  "backwardData conv d w =
     (let (filter', g1, w1) = TensorCreate_rand [r_' d, s_' d, c_' d, k_' d] (curand_gen_' d) w;
          (dims, w2) = get_output_dims conv w1;
          (delta, g2, w3) = TensorCreate_rand dims g1 w2;
          (dX, w4) = TensorCreate_zeros [w_' d, h_' d, c_' d, n_' d] w3;
          w5 = conv_backwardData conv filter' delta dX w4;
          w6 = cudaDeviceSynchronize w5;
          (start, w7) = steady_clock_now w6;
          w8 = for_loop 0 (num_repeats_' d) (conv_backwardData conv filter' delta dX) w7;
          w9 = cudaDeviceSynchronize w8;
          (stop, w10) = steady_clock_now w9
      in (average_time start stop (num_repeats_' d), d\<lparr>curand_gen_' := g2\<rparr>, w10))"

text \<open>
  \<open>run\<close>. The argument \<open>gpus_[0]\<close> is evaluated before \<open>createCudnnConv\<close> is entered;
  \<open>operator[]\<close> does no bounds check. The \<open>switch\<close> has one case per enumerator and a
  \<open>default\<close> that returns 0.
\<close>

definition run ::
    "int \<Rightarrow> CudnnConvDriver \<Rightarrow> world \<Rightarrow> (failure + int) \<times> CudnnConvDriver \<times> world" where
  "run problemNumber d w =
     (case gpus_' d of
        [] \<Rightarrow> (Inl VectorSubscriptOutOfRange, d, w)
      | gpu0 # _ \<Rightarrow>
          (case createCudnnConv problemNumber gpu0 d w of
             (Inl e, d1, w1) \<Rightarrow> (Inl e, d1, w1)
           | (Inr conv, d1, w1) \<Rightarrow>
               if method_' d1 = FORWARD then forward conv d1 (initForward conv w1)
               else if method_' d1 = BACKWARD_DATA
                 then backwardData conv d1 (initBackwardData conv w1)
               else if method_' d1 = BACKWARD_FILTER
                 then backwardFilter conv d1 (initBackwardFilter conv w1)
               else (Inr 0, d1, w1)))"

subsection \<open>Observations on a call\<close>

text \<open>
  The trace is read through a few classifications of its events: the submissions of a
  convolution to the engine, which method a submission belongs to, the events of the
  timing protocol (submissions, barriers, clock readings), the buffer allocations, and
  the constructions of an engine.
\<close>

fun submission :: "event \<Rightarrow> bool" where
  "submission (ConvForward x f y) = True"
| "submission (ConvBackwardFilter x dy dw) = True"
| "submission (ConvBackwardData f dy dx) = True"
| "submission e = False"

fun submits :: "CudnnConvMethod \<Rightarrow> event \<Rightarrow> bool" where
  "submits m (ConvForward x f y) = (m = FORWARD)"
| "submits m (ConvBackwardFilter x dy dw) = (m = BACKWARD_FILTER)"
| "submits m (ConvBackwardData f dy dx) = (m = BACKWARD_DATA)"
| "submits m e = False"

definition timing_event :: "event \<Rightarrow> bool" where
  "timing_event e = (submission e \<or> e = CudaDeviceSynchronize \<or> e = SteadyClockNow)"

fun allocation :: "event \<Rightarrow> bool" where
  "allocation (TensorRand dims) = True"
| "allocation (TensorZeros dims) = True"
| "allocation e = False"

fun engine_construction :: "event \<Rightarrow> bool" where
  "engine_construction (CudnnConvNew shape deviceNumber) = True"
| "engine_construction e = False"

text \<open>
  The configuration of a driver: what its constructor was given.
\<close>

definition configuration ::
    "CudnnConvDriver \<Rightarrow> CudnnConvMethod \<times> int \<times> int list \<times> CudnnConvProblemSet" where
  "configuration d = (method_' d, num_repeats_' d, gpus_' d, problems_' d)"

text \<open>
  An index the catalog can answer.
\<close>

definition valid_index :: "CudnnConvDriver \<Rightarrow> int \<Rightarrow> bool" where
  "valid_index d problemNumber = (0 \<le> problemNumber \<and> problemNumber < int (length (problems_' d)))"

text \<open>
  The submission each routine repeats, with the three tensors it was given; the list of
  timing events around \<open>n\<close> repetitions of a submission; the driver after a routine has
  drawn two random buffers; and the value a routine computes from the next two readings
  of the clock. These abbreviate the statements of the lemmas about the routines.
\<close>

definition forward_op :: "CudnnConv \<Rightarrow> CudnnConvDriver \<Rightarrow> world \<Rightarrow> event" where
  "forward_op conv d w =
     ConvForward (Rand [w_' d, h_' d, c_' d, n_' d]) (Rand [r_' d, s_' d, c_' d, k_' d])
       (Zeros (output_dims w conv))"

definition backwardFilter_op :: "CudnnConv \<Rightarrow> CudnnConvDriver \<Rightarrow> world \<Rightarrow> event" where
  "backwardFilter_op conv d w =
     ConvBackwardFilter (Rand [w_' d, h_' d, c_' d, n_' d]) (Rand (output_dims w conv))
       (Zeros [r_' d, s_' d, c_' d, k_' d])"

definition backwardData_op :: "CudnnConv \<Rightarrow> CudnnConvDriver \<Rightarrow> world \<Rightarrow> event" where
  "backwardData_op conv d w =
     ConvBackwardData (Rand [r_' d, s_' d, c_' d, k_' d]) (Rand (output_dims w conv))
       (Zeros [w_' d, h_' d, c_' d, n_' d])"

definition timed :: "event \<Rightarrow> int \<Rightarrow> event list" where
  "timed e n = [e, CudaDeviceSynchronize, SteadyClockNow] @ replicate (nat n) e @
     [CudaDeviceSynchronize, SteadyClockNow]"

definition after_routine :: "CudnnConvDriver \<Rightarrow> CudnnConvDriver" where
  "after_routine d =
     d\<lparr>curand_gen_' := (curand_gen_' d)\<lparr>gen_fills := Suc (Suc (gen_fills (curand_gen_' d)))\<rparr>\<rparr>"

definition reduction :: "CudnnConvDriver \<Rightarrow> world \<Rightarrow> failure + int" where
  "reduction d w =
     average_time (steady_clock w (clock_reads w)) (steady_clock w (Suc (clock_reads w)))
       (num_repeats_' d)"

text \<open>
  The assignment through \<open>std::tie\<close> in \<open>createCudnnConv\<close>, as a function on the driver.
\<close>

definition unpack :: "ProblemShape \<Rightarrow> CudnnConvDriver \<Rightarrow> CudnnConvDriver" where
  "unpack shape d =
     (case shape of (w', h', c', n', k', r', s', pad_w', pad_h', wstride', hstride') \<Rightarrow>
        d\<lparr>w_' := w', h_' := h', c_' := c', n_' := n', k_' := k', r_' := r', s_' := s',
          pad_w_' := pad_w', pad_h_' := pad_h', wstride_' := wstride', hstride_' := hstride'\<rparr>)"

text \<open>
  The two timestamps a measurement routine captures in world \<open>w\<close>, as numbers of
  nanoseconds: the next reading of the clock and the one after it. \<open>elapsed_ticks\<close> is
  their difference, and \<open>average_micro\<close> the average the routine computes from it in
  \<open>double\<close>, before truncation: the difference as a \<open>double\<close>, divided by 1000, divided
  by the repeat count as a \<open>double\<close>.
\<close>

definition start_timestamp :: "world \<Rightarrow> int" where
  "start_timestamp w = sint (steady_clock w (clock_reads w))"

definition stop_timestamp :: "world \<Rightarrow> int" where
  "stop_timestamp w = sint (steady_clock w (Suc (clock_reads w)))"

definition elapsed_ticks :: "world \<Rightarrow> int" where
  "elapsed_ticks w = stop_timestamp w - start_timestamp w"

definition average_micro :: "CudnnConvDriver \<Rightarrow> world \<Rightarrow> real" where
  "average_micro d w =
     double_div (double_div (double_of_int (elapsed_ticks w)) 1000)
       (double_of_int (num_repeats_' d))"

subsection \<open>A concrete scenario\<close>

text \<open>
  The scenario of the specification: one problem with \<open>w = 5, h = 5, c = 3, n = 1, k = 2,
  r = 3, s = 3\<close>, no padding and stride 1, on device 0. The clock of \<open>scenario_world t0 t1\<close>
  reads \<open>t0\<close> first and \<open>t1\<close> from then on; its engine reports the output dimensions
  \<open>[3, 3, 2, 1]\<close>. \<open>raw_storage\<close> is storage before construction, and
  \<open>status_world a b\<close> a world in which \<open>cudaFree\<close> returns the status \<open>a\<close> and
  \<open>curandCreateGenerator\<close> the status \<open>b\<close>.
\<close>

definition scenario_problem :: ProblemShape where
  "scenario_problem = (5, 5, 3, 1, 2, 3, 3, 0, 0, 1, 1)"

definition scenario_driver :: "CudnnConvMethod \<Rightarrow> int \<Rightarrow> CudnnConvDriver" where
  "scenario_driver m numRuns =
     \<lparr>num_repeats_' = numRuns,
      curand_gen_' = \<lparr>gen_seed = 42, gen_fills = 0\<rparr>,
      method_' = m, problems_' = [scenario_problem],
      k_' = 0, c_' = 0, r_' = 0, s_' = 0, n_' = 0, w_' = 0, h_' = 0,
      pad_w_' = 0, pad_h_' = 0, wstride_' = 0, hstride_' = 0, gpus_' = [0]\<rparr>"

definition scenario_world :: "int \<Rightarrow> int \<Rightarrow> world" where
  "scenario_world t0 t1 =
     \<lparr>trace = [], clock_reads = 0,
      steady_clock = (\<lambda>k. if k = 0 then word_of_int t0 else word_of_int t1),
      output_dims = (\<lambda>conv. [3, 3, 2, 1]), cudaFree_status = 0,
      curandCreateGenerator_status = 0\<rparr>"

definition raw_storage :: CudnnConvDriver where
  "raw_storage =
     \<lparr>num_repeats_' = 0,
      curand_gen_' = \<lparr>gen_seed = 0, gen_fills = 0\<rparr>,
      method_' = 0, problems_' = [],
      k_' = 0, c_' = 0, r_' = 0, s_' = 0, n_' = 0, w_' = 0, h_' = 0,
      pad_w_' = 0, pad_h_' = 0, wstride_' = 0, hstride_' = 0, gpus_' = []\<rparr>"

definition status_world :: "int \<Rightarrow> int \<Rightarrow> world" where
  "status_world a b =
     \<lparr>trace = [], clock_reads = 0, steady_clock = (\<lambda>k. 0),
      output_dims = (\<lambda>conv. []), cudaFree_status = a,
      curandCreateGenerator_status = b\<rparr>"

section \<open>Properties\<close>

subsection \<open>The trace and the loop\<close>

lemma trace_emit [simp]: "trace (emit e w) = trace w @ [e]"
  and clock_reads_emit [simp]: "clock_reads (emit e w) = clock_reads w"
  and steady_clock_emit [simp]: "steady_clock (emit e w) = steady_clock w"
  and output_dims_emit [simp]: "output_dims (emit e w) = output_dims w"
  and cudaFree_status_emit [simp]: "cudaFree_status (emit e w) = cudaFree_status w"
  and curandCreateGenerator_status_emit [simp]:
    "curandCreateGenerator_status (emit e w) = curandCreateGenerator_status w"
  by (simp_all add: emit_def)

lemma emitted_append [simp]: "trace w' = trace w @ es \<Longrightarrow> emitted w w' = es"
  by (simp add: emitted_def)

lemma for_loop_emit:
  "(\<And>v. body v = emit e v) \<Longrightarrow>
   for_loop i n body w = w\<lparr>trace := trace w @ replicate (nat (n - i)) e\<rparr>"
proof (induction i n body w rule: for_loop.induct)
  case (1 i n body w)
  show ?case
  proof (cases "i < n")
    case True
    have len: "nat (n - i) = Suc (nat (n - (i + 1)))"
      using True by simp
    have "for_loop i n body w = for_loop (i + 1) n body (body w)"
      using True by (subst for_loop.simps) simp
    also have "\<dots> = (body w)\<lparr>trace := trace (body w) @ replicate (nat (n - (i + 1))) e\<rparr>"
      using "1.IH" [OF True "1.prems"] .
    also have "\<dots> = w\<lparr>trace := trace w @ replicate (nat (n - i)) e\<rparr>"
      by (simp add: "1.prems" emit_def len)
    finally show ?thesis .
  next
    case False
    then show ?thesis by (subst for_loop.simps) simp
  qed
qed

subsection \<open>Rounding to double\<close>

lemma pow2_int: "0 \<le> k \<Longrightarrow> (2::real) powi k = 2 ^ nat k"
  by (metis int_nat_eq power_int_of_nat)

lemma ilog2_bounds:
  assumes "0 < x"
  shows "2 powi ilog2 x \<le> x" and "x < 2 powi (ilog2 x + 1)"
proof -
  have "2 powi ilog2 x \<le> x \<and> x < 2 powi (ilog2 x + 1)"
  proof (cases "1 \<le> x")
    case True
    define z where "z = \<lfloor>x\<rfloor>"
    have z: "1 \<le> z" "of_int z \<le> x" "x < of_int z + 1"
      unfolding z_def using True by linarith+
    define b where "b = bitlen z"
    have b: "2 ^ nat (b - 1) \<le> z" "z < 2 ^ nat b"
      using bitlen_bounds [of z] z(1) by (simp_all add: b_def)
    have b1: "1 \<le> b"
      using z(1) bitlen_eq_zero_iff [of z] bitlen_nonneg [of z] unfolding b_def by linarith
    have "(2::real) powi (b - 1) = 2 ^ nat (b - 1)"
      using b1 by (simp add: pow2_int)
    also have "\<dots> = real_of_int (2 ^ nat (b - 1))"
      by simp
    also have "\<dots> \<le> real_of_int z"
      using b(1) by (rule iffD2 [OF of_int_le_iff])
    finally have lo: "2 powi (b - 1) \<le> x"
      using z(2) by linarith
    have "z + 1 \<le> 2 ^ nat b"
      using b(2) by linarith
    then have "real_of_int (z + 1) \<le> real_of_int (2 ^ nat b)"
      by (rule iffD2 [OF of_int_le_iff])
    then have "real_of_int z + 1 \<le> 2 ^ nat b"
      by simp
    then have "x < 2 ^ nat b"
      using z(3) by linarith
    also have "(2::real) ^ nat b = 2 powi b"
      using b1 by (simp add: pow2_int)
    finally have hi: "x < 2 powi (b - 1 + 1)"
      by simp
    show ?thesis
      using True lo hi by (simp add: ilog2_def z_def b_def)
  next
    case False
    define y where "y = 1 / x"
    have y: "1 < y" "x = 1 / y"
      using False assms by (simp_all add: y_def)
    define m where "m = \<lceil>y\<rceil>"
    have m: "y \<le> of_int m" "of_int m - 1 < y" "2 \<le> m"
      unfolding m_def using y(1) by linarith+
    define c where "c = bitlen (m - 1)"
    have c: "2 ^ nat (c - 1) \<le> m - 1" "m - 1 < 2 ^ nat c"
      using bitlen_bounds [of "m - 1"] m(3) by (simp_all add: c_def)
    have c1: "1 \<le> c"
      using m(3) bitlen_eq_zero_iff [of "m - 1"] bitlen_nonneg [of "m - 1"]
      unfolding c_def by linarith
    have "m \<le> 2 ^ nat c"
      using c(2) by linarith
    then have "real_of_int m \<le> real_of_int (2 ^ nat c)"
      by (rule iffD2 [OF of_int_le_iff])
    then have "real_of_int m \<le> 2 ^ nat c"
      by simp
    then have "y \<le> 2 ^ nat c"
      using m(1) by linarith
    also have "(2::real) ^ nat c = 2 powi c"
      using c1 by (simp add: pow2_int)
    finally have "y \<le> 2 powi c" .
    then have lo: "2 powi (- c) \<le> x"
      using y(1) by (simp add: y(2) power_int_minus field_simps)
    have "real_of_int (2 ^ nat (c - 1)) \<le> real_of_int (m - 1)"
      using c(1) by (rule iffD2 [OF of_int_le_iff])
    then have "2 ^ nat (c - 1) \<le> real_of_int m - 1"
      by simp
    then have "2 ^ nat (c - 1) < y"
      using m(2) by linarith
    moreover have "(2::real) ^ nat (c - 1) = 2 powi (c - 1)"
      using c1 by (simp add: pow2_int)
    ultimately have py: "2 powi (c - 1) < y"
      by simp
    have p: "0 < (2::real) powi (c - 1)"
      by (simp add: zero_less_power_int)
    have "1 / y < 1 / 2 powi (c - 1)"
      using p py y(1) by (simp add: field_simps)
    moreover have "(2::real) powi (- c + 1) = 1 / 2 powi (c - 1)"
      using power_int_minus_divide [of "2::real" "c - 1"] by simp
    ultimately have hi: "x < 2 powi (- c + 1)"
      by (simp add: y(2))
    show ?thesis
      using False lo hi by (simp add: ilog2_def y_def m_def c_def)
  qed
  then show "2 powi ilog2 x \<le> x" and "x < 2 powi (ilog2 x + 1)"
    by simp_all
qed

lemma ilog2_unique:
  assumes "0 < x" and "2 powi k \<le> x" and "x < 2 powi (k + 1)"
  shows "ilog2 x = k"
proof -
  have "(2::real) powi ilog2 x < 2 powi (k + 1)"
    using ilog2_bounds(1) [OF assms(1)] assms(3) by linarith
  then have "ilog2 x < k + 1"
    by (metis linorder_not_less one_le_numeral power_int_increasing)
  moreover have "(2::real) powi k < 2 powi (ilog2 x + 1)"
    using ilog2_bounds(2) [OF assms(1)] assms(2) by linarith
  then have "k < ilog2 x + 1"
    by (metis linorder_not_less one_le_numeral power_int_increasing)
  ultimately show ?thesis
    by linarith
qed


lemma round_half_even_of_int [simp]: "round_half_even (of_int z) = z"
  by (simp add: round_half_even_def)

lemma round_half_even_lower: "\<lfloor>x\<rfloor> \<le> round_half_even x"
  by (simp add: round_half_even_def Let_def)

lemma round_half_even_upper: "round_half_even x \<le> \<lfloor>x\<rfloor> + 1"
  by (simp add: round_half_even_def Let_def)

lemma round_half_even_divide:
  assumes "0 < q"
  shows "round_half_even (of_int p / of_int q) =
     (if 2 * (p mod q) < q then p div q
      else if q < 2 * (p mod q) then p div q + 1
      else if even (p div q) then p div q else p div q + 1)"
proof -
  define r where "r = real_of_int p / real_of_int q - real_of_int (p div q)"
  have f: "\<lfloor>real_of_int p / real_of_int q\<rfloor> = p div q"
    by (rule floor_divide_of_int_eq)
  have "real_of_int p = real_of_int (p div q * q + p mod q)"
    by simp
  then have "real_of_int p = real_of_int (p div q) * real_of_int q + real_of_int (p mod q)"
    by (simp only: of_int_add of_int_mult)
  then have r: "r = real_of_int (p mod q) / real_of_int q"
    unfolding r_def using assms by (simp add: field_simps)
  have "(r < 1 / 2) = (real_of_int (2 * (p mod q)) < real_of_int q)"
    unfolding r using assms by (simp add: field_simps)
  also have "\<dots> = (2 * (p mod q) < q)"
    by (rule of_int_less_iff)
  finally have lt: "(r < 1 / 2) = (2 * (p mod q) < q)" .
  have "(1 / 2 < r) = (real_of_int q < real_of_int (2 * (p mod q)))"
    unfolding r using assms by (simp add: field_simps)
  also have "\<dots> = (q < 2 * (p mod q))"
    by (rule of_int_less_iff)
  finally have gt: "(1 / 2 < r) = (q < 2 * (p mod q))" .
  have "round_half_even (of_int p / of_int q) =
     (if r < 1 / 2 then p div q
      else if 1 / 2 < r then p div q + 1
      else if even (p div q) then p div q else p div q + 1)"
    unfolding round_half_even_def Let_def f r_def ..
  then show ?thesis
    unfolding lt gt .
qed

lemma round_half_even_ge:
  assumes "of_int z \<le> x"
  shows "z \<le> round_half_even x"
proof -
  have "z \<le> \<lfloor>x\<rfloor>"
    using assms by (simp add: le_floor_iff)
  then show ?thesis
    using round_half_even_lower [of x] by linarith
qed

lemma round_half_even_le:
  assumes "x \<le> of_int z"
  shows "round_half_even x \<le> z"
proof (cases "x = of_int z")
  case True
  then show ?thesis by simp
next
  case False
  then have "x < of_int z"
    using assms by simp
  then have "\<lfloor>x\<rfloor> < z"
    by (simp add: floor_less_iff)
  then show ?thesis
    using round_half_even_upper [of x] by linarith
qed

lemma round_double_eval:
  assumes "2 powi j \<le> \<bar>x\<bar>" and "\<bar>x\<bar> < 2 powi (j + 1)"
  shows "round_double x = of_int (round_half_even (x / 2 powi (j - 52))) * 2 powi (j - 52)"
proof -
  have "0 < (2::real) powi j"
    by (simp add: zero_less_power_int)
  then have pos: "0 < \<bar>x\<bar>"
    using assms(1) by linarith
  then have "ilog2 \<bar>x\<bar> = j"
    using assms by (rule ilog2_unique)
  moreover have "x \<noteq> 0"
    using pos by simp
  ultimately show ?thesis
    by (simp add: round_double_def Let_def)
qed

lemma round_double_scaled:
  assumes "x \<noteq> 0"
  shows "2 powi 52 \<le> \<bar>x\<bar> / 2 powi (ilog2 \<bar>x\<bar> - 52)"
    and "\<bar>x\<bar> / 2 powi (ilog2 \<bar>x\<bar> - 52) < 2 powi 53"
proof -
  let ?j = "ilog2 \<bar>x\<bar>"
  have pos: "0 < \<bar>x\<bar>"
    using assms by simp
  have p: "0 < (2::real) powi (?j - 52)"
    by (simp add: zero_less_power_int)
  have a: "(2::real) powi ?j = 2 powi 52 * 2 powi (?j - 52)"
  proof -
    have "?j = 52 + (?j - 52)" by linarith
    then have "(2::real) powi ?j = 2 powi (52 + (?j - 52))" by (rule arg_cong)
    also have "\<dots> = 2 powi 52 * 2 powi (?j - 52)" by (rule power_int_add) simp
    finally show ?thesis .
  qed
  have b: "(2::real) powi (?j + 1) = 2 powi 53 * 2 powi (?j - 52)"
  proof -
    have "?j + 1 = 53 + (?j - 52)" by linarith
    then have "(2::real) powi (?j + 1) = 2 powi (53 + (?j - 52))" by (rule arg_cong)
    also have "\<dots> = 2 powi 53 * 2 powi (?j - 52)" by (rule power_int_add) simp
    finally show ?thesis .
  qed
  show "2 powi 52 \<le> \<bar>x\<bar> / 2 powi (?j - 52)"
    using ilog2_bounds(1) [OF pos] p unfolding a by (simp add: field_simps)
  show "\<bar>x\<bar> / 2 powi (?j - 52) < 2 powi 53"
    using ilog2_bounds(2) [OF pos] p unfolding b by (simp add: field_simps)
qed

lemma round_double_nonneg:
  assumes "0 \<le> x"
  shows "0 \<le> round_double x"
proof (cases "x = 0")
  case True
  then show ?thesis by (simp add: round_double_def)
next
  case False
  let ?e = "ilog2 \<bar>x\<bar> - 52"
  have p: "0 < (2::real) powi ?e"
    by (simp add: zero_less_power_int)
  have "real_of_int 0 \<le> x / 2 powi ?e"
    using assms p by simp
  then have "0 \<le> round_half_even (x / 2 powi ?e)"
    by (rule round_half_even_ge)
  then show ?thesis
    using False p by (simp add: round_double_def Let_def)
qed

lemma round_double_pos:
  assumes "0 < x"
  shows "0 < round_double x"
proof -
  let ?e = "ilog2 \<bar>x\<bar> - 52"
  have x: "x \<noteq> 0" "\<bar>x\<bar> = x"
    using assms by simp_all
  have p: "0 < (2::real) powi ?e"
    by (simp add: zero_less_power_int)
  have "real_of_int (2 ^ 52) \<le> x / 2 powi ?e"
    using round_double_scaled(1) [OF x(1)] x(2) by simp
  then have "2 ^ 52 \<le> round_half_even (x / 2 powi ?e)"
    by (rule round_half_even_ge)
  then have "0 < round_half_even (x / 2 powi ?e)"
    by simp
  then show ?thesis
    using x(1) p by (simp add: round_double_def Let_def)
qed

lemma round_double_exact:
  assumes "\<bar>m\<bar> < 2 ^ 53"
  shows "round_double (of_int m * 2 powi k) = of_int m * 2 powi k"
proof (cases "m = 0")
  case True
  then show ?thesis by (simp add: round_double_def)
next
  case False
  define x where "x = real_of_int m * 2 powi k"
  define j where "j = ilog2 \<bar>x\<bar>"
  define e where "e = j - 52"
  define n where "n = nat (k - e)"
  have pk: "0 < (2::real) powi k" and pe: "0 < (2::real) powi e"
    by (simp_all add: zero_less_power_int)
  have x: "x \<noteq> 0"
    using False pk by (simp add: x_def)
  have "real_of_int \<bar>m\<bar> < real_of_int (2 ^ 53)"
    using assms by (rule iffD2 [OF of_int_less_iff])
  then have "\<bar>real_of_int m\<bar> < 2 ^ 53"
    by simp
  then have lt: "\<bar>real_of_int m\<bar> * 2 powi k < 2 ^ 53 * 2 powi k"
    using pk by (rule mult_strict_right_mono)
  have eq: "(2::real) ^ 53 * 2 powi k = 2 powi (53 + k)"
  proof -
    have "(2::real) powi (53 + k) = 2 powi 53 * 2 powi k"
      by (rule power_int_add) simp
    then show ?thesis by simp
  qed
  have "\<bar>x\<bar> = \<bar>real_of_int m\<bar> * 2 powi k"
    using pk by (simp add: x_def abs_mult)
  also note lt
  also note eq
  finally have "\<bar>x\<bar> < 2 powi (53 + k)" .
  moreover have "2 powi j \<le> \<bar>x\<bar>"
    unfolding j_def using x by (intro ilog2_bounds(1)) simp
  ultimately have "(2::real) powi j < 2 powi (53 + k)"
    by linarith
  then have "j < 53 + k"
    by (metis linorder_not_less one_le_numeral power_int_increasing)
  then have ke: "0 \<le> k - e"
    unfolding e_def by linarith
  have "(2::real) powi k = 2 powi (k - e + e)"
    by simp
  also have "\<dots> = 2 powi (k - e) * 2 powi e"
    by (rule power_int_add) simp
  also have "(2::real) powi (k - e) = 2 ^ n"
    unfolding n_def using ke by (rule pow2_int)
  finally have k: "(2::real) powi k = 2 ^ n * 2 powi e" .
  have "x / 2 powi e = real_of_int m * 2 ^ n"
    using pe unfolding x_def k by simp
  also have "\<dots> = real_of_int (m * 2 ^ n)"
    by simp
  finally have "round_half_even (x / 2 powi e) = m * 2 ^ n"
    by (simp only: round_half_even_of_int)
  then have "round_double x = real_of_int (m * 2 ^ n) * 2 powi e"
    using x by (simp add: round_double_def Let_def j_def e_def)
  also have "\<dots> = real_of_int m * (2 ^ n * 2 powi e)"
    by simp
  also have "\<dots> = x"
    unfolding x_def k ..
  finally show ?thesis
    unfolding x_def .
qed

lemma round_double_of_int:
  assumes "\<bar>z\<bar> < 2 ^ 53"
  shows "round_double (of_int z) = of_int z"
  using round_double_exact [OF assms, of 0] by simp

text \<open>
  Three facts that tie the definitions to their reading: \<open>ilog2\<close> is the floor of the
  binary logarithm, and \<open>round_double x\<close> is a number with a significand of at most 53
  bits that lies within half a unit in the last place of \<open>x\<close>.
\<close>

lemma ilog2_floor_log:
  assumes "0 < x"
  shows "ilog2 x = \<lfloor>log 2 x\<rfloor>"
proof -
  have a: "(2::real) powr real_of_int (ilog2 x) = 2 powi ilog2 x"
    by (simp add: powr_real_of_int')
  have b: "(2::real) powr (real_of_int (ilog2 x) + 1) = 2 powi (ilog2 x + 1)"
    using powr_real_of_int' [of "2::real" "ilog2 x + 1"] by simp
  have "2 powr real_of_int (ilog2 x) \<le> x" and "x < 2 powr (real_of_int (ilog2 x) + 1)"
    unfolding a b using ilog2_bounds [OF assms] by simp_all
  then show ?thesis
    using floor_log_eq_powr_iff [of x 2 "ilog2 x"] assms by simp
qed

lemma round_half_even_error: "\<bar>real_of_int (round_half_even x) - x\<bar> \<le> 1 / 2"
  unfolding round_half_even_def Let_def by (auto simp: abs_if) linarith+

lemma round_double_error:
  assumes "x \<noteq> 0"
  shows "\<bar>round_double x - x\<bar> \<le> 2 powi (ilog2 \<bar>x\<bar> - 53)"
proof -
  define e where "e = ilog2 \<bar>x\<bar> - 52"
  have p: "0 < (2::real) powi e"
    by (simp add: zero_less_power_int)
  have "round_double x - x = (of_int (round_half_even (x / 2 powi e)) - x / 2 powi e) * 2 powi e"
    using assms p by (simp add: round_double_def Let_def e_def field_simps)
  then have "\<bar>round_double x - x\<bar> =
      \<bar>of_int (round_half_even (x / 2 powi e)) - x / 2 powi e\<bar> * 2 powi e"
    using p by (simp add: abs_mult)
  also have "\<dots> \<le> 1 / 2 * 2 powi e"
    using round_half_even_error [of "x / 2 powi e"] p by (intro mult_right_mono) simp_all
  also have "\<dots> = 2 powi (e - 1)"
    using power_int_add [of "2::real" "e - 1" 1] by simp
  finally show ?thesis
    by (simp add: e_def)
qed

lemma round_double_significand:
  assumes "x \<noteq> 0"
  shows "\<exists>m. \<bar>m\<bar> \<le> 2 ^ 53 \<and> round_double x = of_int m * 2 powi (ilog2 \<bar>x\<bar> - 52)"
proof -
  define y where "y = x / 2 powi (ilog2 \<bar>x\<bar> - 52)"
  have p: "0 < (2::real) powi (ilog2 \<bar>x\<bar> - 52)"
    by (simp add: zero_less_power_int)
  have "\<bar>y\<bar> = \<bar>x\<bar> / 2 powi (ilog2 \<bar>x\<bar> - 52)"
    using p by (simp add: y_def)
  then have "\<bar>y\<bar> < 2 powi 53"
    using round_double_scaled(2) [OF assms] by simp
  then have lo: "real_of_int (- (2 ^ 53)) \<le> y" and hi: "y \<le> real_of_int (2 ^ 53)"
    by simp_all
  have "- (2 ^ 53) \<le> round_half_even y"
    using lo by (rule round_half_even_ge)
  moreover have "round_half_even y \<le> 2 ^ 53"
    using hi by (rule round_half_even_le)
  ultimately have "\<bar>round_half_even y\<bar> \<le> 2 ^ 53"
    by simp
  moreover have "round_double x = of_int (round_half_even y) * 2 powi (ilog2 \<bar>x\<bar> - 52)"
    using assms by (simp add: round_double_def Let_def y_def)
  ultimately show ?thesis
    by blast
qed

lemma double_of_int_exact:
  assumes "\<bar>z\<bar> < 2 ^ 53"
  shows "double_of_int z = of_int z"
  unfolding double_of_int_def using assms by (rule round_double_of_int)

lemma double_of_int_nonneg: "0 \<le> z \<Longrightarrow> 0 \<le> double_of_int z"
  by (simp add: double_of_int_def round_double_nonneg)

lemma double_of_int_pos: "0 < z \<Longrightarrow> 0 < double_of_int z"
  by (simp add: double_of_int_def round_double_pos)

lemma double_div_nonneg: "0 \<le> a \<Longrightarrow> 0 \<le> b \<Longrightarrow> 0 \<le> double_div a b"
  by (simp add: double_div_def round_double_nonneg)

lemma double_div_exact:
  assumes "\<bar>q\<bar> < 2 ^ 53" and "a = of_int q * b" and "b \<noteq> 0"
  shows "double_div a b = of_int q"
proof -
  have "a / b = of_int q"
    using assms(2,3) by simp
  then show ?thesis
    unfolding double_div_def using round_double_of_int [OF assms(1)] by simp
qed

lemma sint_word_of_int_64:
  assumes "- (2 ^ 63) \<le> t" and "t < 2 ^ 63"
  shows "sint (word_of_int t :: 64 word) = t"
  using assms by (simp add: sint_sbintrunc' signed_take_bit_int_eq_self)

subsection \<open>The measurement routines and \<open>run\<close>, in full\<close>

lemma forward_eq:
  "forward conv d w =
     (reduction d w, after_routine d,
      w\<lparr>trace := trace w @
           [TensorRand [r_' d, s_' d, c_' d, k_' d], TensorRand [w_' d, h_' d, c_' d, n_' d],
            GetOutputDims, TensorZeros (output_dims w conv)] @
           timed (forward_op conv d w) (num_repeats_' d),
         clock_reads := Suc (Suc (clock_reads w))\<rparr>)"
  by (simp add: forward_def TensorCreate_rand_def TensorCreate_zeros_def get_output_dims_def
      cudaDeviceSynchronize_def steady_clock_now_def reduction_def after_routine_def timed_def
      for_loop_emit [where e = "forward_op conv d w"] forward_op_def
      conv_forward_def emit_def)

lemma backwardFilter_eq:
  "backwardFilter conv d w =
     (reduction d w, after_routine d,
      w\<lparr>trace := trace w @
           [TensorRand [w_' d, h_' d, c_' d, n_' d], GetOutputDims,
            TensorRand (output_dims w conv), TensorZeros [r_' d, s_' d, c_' d, k_' d]] @
           timed (backwardFilter_op conv d w) (num_repeats_' d),
         clock_reads := Suc (Suc (clock_reads w))\<rparr>)"
  by (simp add: backwardFilter_def TensorCreate_rand_def TensorCreate_zeros_def
      get_output_dims_def cudaDeviceSynchronize_def steady_clock_now_def reduction_def
      after_routine_def timed_def
      for_loop_emit [where e = "backwardFilter_op conv d w"] backwardFilter_op_def
      conv_backwardFilter_def emit_def)

lemma backwardData_eq:
  "backwardData conv d w =
     (reduction d w, after_routine d,
      w\<lparr>trace := trace w @
           [TensorRand [r_' d, s_' d, c_' d, k_' d], GetOutputDims,
            TensorRand (output_dims w conv), TensorZeros [w_' d, h_' d, c_' d, n_' d]] @
           timed (backwardData_op conv d w) (num_repeats_' d),
         clock_reads := Suc (Suc (clock_reads w))\<rparr>)"
  by (simp add: backwardData_def TensorCreate_rand_def TensorCreate_zeros_def
      get_output_dims_def cudaDeviceSynchronize_def steady_clock_now_def reduction_def
      after_routine_def timed_def
      for_loop_emit [where e = "backwardData_op conv d w"] backwardData_op_def
      conv_backwardData_def emit_def)

lemma createCudnnConv_valid:
  assumes "valid_index d problemNumber"
  shows "createCudnnConv problemNumber deviceNumber d w =
     (Inr \<lparr>conv_shape = problems_' d ! nat problemNumber, conv_device = deviceNumber\<rparr>,
      unpack (problems_' d ! nat problemNumber) d,
      w\<lparr>trace := trace w @ [ProblemSetGet problemNumber,
           CudnnConvNew (problems_' d ! nat problemNumber) deviceNumber]\<rparr>)"
  using assms
  by (simp add: createCudnnConv_def CudnnConvProblemSet_get_def CudnnConv_new_def unpack_def
      valid_index_def emit_def split: prod.splits)

lemma createCudnnConv_invalid:
  assumes "\<not> valid_index d problemNumber"
  shows "createCudnnConv problemNumber deviceNumber d w =
     (Inl IndexError, d, emit (ProblemSetGet problemNumber) w)"
  using assms
  by (auto simp add: createCudnnConv_def CudnnConvProblemSet_get_def valid_index_def)

lemma unpack_configuration [simp]:
  "method_' (unpack shape d) = method_' d"
  "num_repeats_' (unpack shape d) = num_repeats_' d"
  "gpus_' (unpack shape d) = gpus_' d"
  "problems_' (unpack shape d) = problems_' d"
  "curand_gen_' (unpack shape d) = curand_gen_' d"
  by (simp_all add: unpack_def split: prod.splits)

lemma after_routine_configuration [simp]:
  "method_' (after_routine d) = method_' d"
  "num_repeats_' (after_routine d) = num_repeats_' d"
  "gpus_' (after_routine d) = gpus_' d"
  "problems_' (after_routine d) = problems_' d"
  by (simp_all add: after_routine_def)

lemma reduction_cong [simp]:
  "reduction (unpack shape d) w = reduction d w"
  "reduction d (emit e w) = reduction d w"
  "reduction d (w\<lparr>trace := t\<rparr>) = reduction d w"
  by (simp_all add: reduction_def)

lemma run_dispatch:
  assumes "gpus_' d = g # gs" and "valid_index d problemNumber"
  shows "run problemNumber d w =
     (let shape = problems_' d ! nat problemNumber;
          conv = \<lparr>conv_shape = shape, conv_device = g\<rparr>;
          d1 = unpack shape d;
          w1 = w\<lparr>trace := trace w @ [ProblemSetGet problemNumber, CudnnConvNew shape g]\<rparr>
      in if method_' d = FORWARD then forward conv d1 (emit InitForward w1)
         else if method_' d = BACKWARD_DATA then backwardData conv d1 (emit InitBackwardData w1)
         else if method_' d = BACKWARD_FILTER
           then backwardFilter conv d1 (emit InitBackwardFilter w1)
         else (Inr 0, d1, w1))"
  using assms
  by (simp add: run_def createCudnnConv_valid initForward_def initBackwardData_def
      initBackwardFilter_def Let_def)

lemma run_index_error_eq:
  assumes "gpus_' d = g # gs" and "\<not> valid_index d problemNumber"
  shows "run problemNumber d w = (Inl IndexError, d, emit (ProblemSetGet problemNumber) w)"
  using assms by (simp add: run_def createCudnnConv_invalid)

lemma run_no_device:
  assumes "gpus_' d = []"
  shows "run problemNumber d w = (Inl VectorSubscriptOutOfRange, d, w)"
  using assms by (simp add: run_def)

lemma filter_replicate_same: "P e \<Longrightarrow> filter P (replicate n e) = replicate n e"
  by (induction n) simp_all

lemma filter_replicate_none: "\<not> P e \<Longrightarrow> filter P (replicate n e) = []"
  by (induction n) simp_all

lemma enumerators_distinct [simp]:
  "FORWARD \<noteq> BACKWARD_DATA" "FORWARD \<noteq> BACKWARD_FILTER" "BACKWARD_DATA \<noteq> BACKWARD_FILTER"
  "BACKWARD_DATA \<noteq> FORWARD" "BACKWARD_FILTER \<noteq> FORWARD" "BACKWARD_FILTER \<noteq> BACKWARD_DATA"
  by (simp_all add: FORWARD_def BACKWARD_DATA_def BACKWARD_FILTER_def)

lemma run_trace_forward:
  assumes "gpus_' d = g # gs" and "valid_index d problemNumber" and "method_' d = FORWARD"
  shows "run problemNumber d w =
     (let shape = problems_' d ! nat problemNumber;
          conv = \<lparr>conv_shape = shape, conv_device = g\<rparr>;
          d1 = unpack shape d
      in (reduction d w, after_routine d1,
          w\<lparr>trace := trace w @
               [ProblemSetGet problemNumber, CudnnConvNew shape g, InitForward,
                TensorRand [r_' d1, s_' d1, c_' d1, k_' d1],
                TensorRand [w_' d1, h_' d1, c_' d1, n_' d1],
                GetOutputDims, TensorZeros (output_dims w conv)] @
               timed (forward_op conv d1 w) (num_repeats_' d),
             clock_reads := Suc (Suc (clock_reads w))\<rparr>))"
  using assms
  by (simp add: run_dispatch forward_eq Let_def emit_def forward_op_def)

lemma run_trace_backwardData:
  assumes "gpus_' d = g # gs" and "valid_index d problemNumber"
    and "method_' d = BACKWARD_DATA"
  shows "run problemNumber d w =
     (let shape = problems_' d ! nat problemNumber;
          conv = \<lparr>conv_shape = shape, conv_device = g\<rparr>;
          d1 = unpack shape d
      in (reduction d w, after_routine d1,
          w\<lparr>trace := trace w @
               [ProblemSetGet problemNumber, CudnnConvNew shape g, InitBackwardData,
                TensorRand [r_' d1, s_' d1, c_' d1, k_' d1], GetOutputDims,
                TensorRand (output_dims w conv),
                TensorZeros [w_' d1, h_' d1, c_' d1, n_' d1]] @
               timed (backwardData_op conv d1 w) (num_repeats_' d),
             clock_reads := Suc (Suc (clock_reads w))\<rparr>))"
  using assms
  by (simp add: run_dispatch backwardData_eq Let_def emit_def backwardData_op_def)

lemma run_trace_backwardFilter:
  assumes "gpus_' d = g # gs" and "valid_index d problemNumber"
    and "method_' d = BACKWARD_FILTER"
  shows "run problemNumber d w =
     (let shape = problems_' d ! nat problemNumber;
          conv = \<lparr>conv_shape = shape, conv_device = g\<rparr>;
          d1 = unpack shape d
      in (reduction d w, after_routine d1,
          w\<lparr>trace := trace w @
               [ProblemSetGet problemNumber, CudnnConvNew shape g, InitBackwardFilter,
                TensorRand [w_' d1, h_' d1, c_' d1, n_' d1], GetOutputDims,
                TensorRand (output_dims w conv),
                TensorZeros [r_' d1, s_' d1, c_' d1, k_' d1]] @
               timed (backwardFilter_op conv d1 w) (num_repeats_' d),
             clock_reads := Suc (Suc (clock_reads w))\<rparr>))"
  using assms
  by (simp add: run_dispatch backwardFilter_eq Let_def emit_def backwardFilter_op_def)

lemma run_trace_default:
  assumes "gpus_' d = g # gs" and "valid_index d problemNumber"
    and "method_' d \<notin> {FORWARD, BACKWARD_DATA, BACKWARD_FILTER}"
  shows "run problemNumber d w =
     (Inr 0, unpack (problems_' d ! nat problemNumber) d,
      w\<lparr>trace := trace w @ [ProblemSetGet problemNumber,
           CudnnConvNew (problems_' d ! nat problemNumber) g]\<rparr>)"
  using assms by (simp add: run_dispatch Let_def)

subsection \<open>C1: the order of the timing events\<close>

lemma timing_filter_timed:
  assumes "submission e"
  shows "filter timing_event (timed e n) = timed e n"
    and "filter submission (timed e n) = e # replicate (nat n) e"
    and "filter (\<lambda>x. x = CudaDeviceSynchronize) (timed e n) =
      [CudaDeviceSynchronize, CudaDeviceSynchronize]"
    and "filter allocation (timed e n) = []"
    and "filter engine_construction (timed e n) = []"
proof -
  have ne: "e \<noteq> CudaDeviceSynchronize" "e \<noteq> SteadyClockNow" "\<not> allocation e"
    "\<not> engine_construction e"
    using assms by (cases e; simp)+
  show "filter timing_event (timed e n) = timed e n"
    using assms by (simp add: timed_def timing_event_def filter_replicate_same)
  show "filter submission (timed e n) = e # replicate (nat n) e"
    using assms by (simp add: timed_def filter_replicate_same)
  show "filter (\<lambda>x. x = CudaDeviceSynchronize) (timed e n) =
      [CudaDeviceSynchronize, CudaDeviceSynchronize]"
    using ne by (simp add: timed_def filter_replicate_none)
  show "filter allocation (timed e n) = []"
    using ne by (simp add: timed_def filter_replicate_none)
  show "filter engine_construction (timed e n) = []"
    using ne by (simp add: timed_def filter_replicate_none)
qed

lemma ops_are_submissions [simp]:
  "submission (forward_op conv d w)" "submits m (forward_op conv d w) = (m = FORWARD)"
  "submission (backwardFilter_op conv d w)"
  "submits m (backwardFilter_op conv d w) = (m = BACKWARD_FILTER)"
  "submission (backwardData_op conv d w)"
  "submits m (backwardData_op conv d w) = (m = BACKWARD_DATA)"
  by (simp_all add: forward_op_def backwardFilter_op_def backwardData_op_def)

text \<open>
  Claim C1. Let the driver have a device and let the index be in the catalog. For each
  of the three methods and every \<open>num_repeats_\<close> of at least one, the timing events that
  a call of \<open>run\<close> emits are, in this order: one submission of the method's operation
  (the warm-up), one \<open>cudaDeviceSynchronize\<close>, one reading of the clock (the start),
  \<open>num_repeats_\<close> submissions of the same operation with nothing between them, one
  \<open>cudaDeviceSynchronize\<close>, one reading of the clock (the stop). The call submits
  \<open>1 + num_repeats_\<close> operations and issues exactly two barriers.
\<close>

theorem run_event_order:
  assumes "gpus_' d \<noteq> []" and "valid_index d problemNumber"
    and "method_' d \<in> {FORWARD, BACKWARD_DATA, BACKWARD_FILTER}"
    and "1 \<le> num_repeats_' d"
  shows "\<exists>op. submits (method_' d) op \<and>
      filter timing_event (emitted w (snd (snd (run problemNumber d w)))) =
        [op, CudaDeviceSynchronize, SteadyClockNow] @
        replicate (nat (num_repeats_' d)) op @
        [CudaDeviceSynchronize, SteadyClockNow] \<and>
      int (length (filter submission (emitted w (snd (snd (run problemNumber d w)))))) =
        1 + num_repeats_' d \<and>
      length (filter (\<lambda>e. e = CudaDeviceSynchronize)
        (emitted w (snd (snd (run problemNumber d w))))) = 2"
proof -
  obtain g gs where g: "gpus_' d = g # gs"
    using assms(1) by (cases "gpus_' d") auto
  define shape where "shape = problems_' d ! nat problemNumber"
  define conv where "conv = \<lparr>conv_shape = shape, conv_device = g\<rparr>"
  define d1 where "d1 = unpack shape d"
  consider (fwd) "method_' d = FORWARD" | (bwd) "method_' d = BACKWARD_DATA"
    | (bwf) "method_' d = BACKWARD_FILTER"
    using assms(3) by auto
  then show ?thesis
  proof cases
    case fwd
    have "submits (method_' d) (forward_op conv d1 w)"
      using fwd by simp
    moreover have "filter timing_event (emitted w (snd (snd (run problemNumber d w)))) =
        timed (forward_op conv d1 w) (num_repeats_' d)"
      by (simp add: run_trace_forward [OF g assms(2) fwd] Let_def timing_filter_timed
          timing_event_def shape_def conv_def d1_def)
    moreover have "length (filter (\<lambda>e. e = CudaDeviceSynchronize)
        (emitted w (snd (snd (run problemNumber d w))))) = 2"
      by (simp add: run_trace_forward [OF g assms(2) fwd] Let_def timing_filter_timed)
    moreover have "int (length (filter submission
        (emitted w (snd (snd (run problemNumber d w)))))) = 1 + num_repeats_' d"
      using assms(4)
      by (simp add: run_trace_forward [OF g assms(2) fwd] Let_def timing_filter_timed)
    ultimately show ?thesis
      unfolding timed_def by blast
  next
    case bwd
    have "submits (method_' d) (backwardData_op conv d1 w)"
      using bwd by simp
    moreover have "filter timing_event (emitted w (snd (snd (run problemNumber d w)))) =
        timed (backwardData_op conv d1 w) (num_repeats_' d)"
      by (simp add: run_trace_backwardData [OF g assms(2) bwd] Let_def timing_filter_timed
          timing_event_def shape_def conv_def d1_def)
    moreover have "length (filter (\<lambda>e. e = CudaDeviceSynchronize)
        (emitted w (snd (snd (run problemNumber d w))))) = 2"
      by (simp add: run_trace_backwardData [OF g assms(2) bwd] Let_def timing_filter_timed)
    moreover have "int (length (filter submission
        (emitted w (snd (snd (run problemNumber d w)))))) = 1 + num_repeats_' d"
      using assms(4)
      by (simp add: run_trace_backwardData [OF g assms(2) bwd] Let_def timing_filter_timed)
    ultimately show ?thesis
      unfolding timed_def by blast
  next
    case bwf
    have "submits (method_' d) (backwardFilter_op conv d1 w)"
      using bwf by simp
    moreover have "filter timing_event (emitted w (snd (snd (run problemNumber d w)))) =
        timed (backwardFilter_op conv d1 w) (num_repeats_' d)"
      by (simp add: run_trace_backwardFilter [OF g assms(2) bwf] Let_def timing_filter_timed
          timing_event_def shape_def conv_def d1_def)
    moreover have "length (filter (\<lambda>e. e = CudaDeviceSynchronize)
        (emitted w (snd (snd (run problemNumber d w))))) = 2"
      by (simp add: run_trace_backwardFilter [OF g assms(2) bwf] Let_def timing_filter_timed)
    moreover have "int (length (filter submission
        (emitted w (snd (snd (run problemNumber d w)))))) = 1 + num_repeats_' d"
      using assms(4)
      by (simp add: run_trace_backwardFilter [OF g assms(2) bwf] Let_def timing_filter_timed)
    ultimately show ?thesis
      unfolding timed_def by blast
  qed
qed

lemma scenario_valid [simp]:
  "valid_index (scenario_driver m numRuns) 0"
  "gpus_' (scenario_driver m numRuns) = [0]"
  "method_' (scenario_driver m numRuns) = m"
  "num_repeats_' (scenario_driver m numRuns) = numRuns"
  "problems_' (scenario_driver m numRuns) = [scenario_problem]"
  by (simp_all add: valid_index_def scenario_driver_def)

text \<open>
  C1 at the scenario: forward convolution, ten repetitions.
\<close>

theorem run_event_order_witness:
  "\<exists>op. submits FORWARD op \<and>
     filter timing_event
       (emitted (scenario_world 0 123456789)
         (snd (snd (run 0 (scenario_driver FORWARD 10) (scenario_world 0 123456789))))) =
       [op, CudaDeviceSynchronize, SteadyClockNow] @ replicate 10 op @
       [CudaDeviceSynchronize, SteadyClockNow] \<and>
     int (length (filter submission
       (emitted (scenario_world 0 123456789)
         (snd (snd (run 0 (scenario_driver FORWARD 10) (scenario_world 0 123456789))))))) = 11 \<and>
     length (filter (\<lambda>e. e = CudaDeviceSynchronize)
       (emitted (scenario_world 0 123456789)
         (snd (snd (run 0 (scenario_driver FORWARD 10) (scenario_world 0 123456789)))))) = 2"
  using run_event_order [of "scenario_driver FORWARD 10" 0 "scenario_world 0 123456789"]
  by simp

subsection \<open>C2: the returned value\<close>

lemma run_result:
  assumes "gpus_' d \<noteq> []" and "valid_index d problemNumber"
  shows "fst (run problemNumber d w) =
     (if method_' d \<in> {FORWARD, BACKWARD_DATA, BACKWARD_FILTER} then reduction d w else Inr 0)"
    and "clock_reads (snd (snd (run problemNumber d w))) =
     (if method_' d \<in> {FORWARD, BACKWARD_DATA, BACKWARD_FILTER}
      then Suc (Suc (clock_reads w)) else clock_reads w)"
proof -
  obtain g gs where g: "gpus_' d = g # gs"
    using assms(1) by (cases "gpus_' d") auto
  consider (fwd) "method_' d = FORWARD" | (bwd) "method_' d = BACKWARD_DATA"
    | (bwf) "method_' d = BACKWARD_FILTER"
    | (other) "method_' d \<notin> {FORWARD, BACKWARD_DATA, BACKWARD_FILTER}"
    by auto
  then have "fst (run problemNumber d w) =
     (if method_' d \<in> {FORWARD, BACKWARD_DATA, BACKWARD_FILTER} then reduction d w else Inr 0)
    \<and> clock_reads (snd (snd (run problemNumber d w))) =
     (if method_' d \<in> {FORWARD, BACKWARD_DATA, BACKWARD_FILTER}
      then Suc (Suc (clock_reads w)) else clock_reads w)"
  proof cases
    case fwd
    then show ?thesis by (simp add: run_trace_forward [OF g assms(2) fwd] Let_def)
  next
    case bwd
    then show ?thesis by (simp add: run_trace_backwardData [OF g assms(2) bwd] Let_def)
  next
    case bwf
    then show ?thesis by (simp add: run_trace_backwardFilter [OF g assms(2) bwf] Let_def)
  next
    case other
    then show ?thesis by (simp add: run_trace_default [OF g assms(2) other])
  qed
  then show "fst (run problemNumber d w) =
     (if method_' d \<in> {FORWARD, BACKWARD_DATA, BACKWARD_FILTER} then reduction d w else Inr 0)"
    and "clock_reads (snd (snd (run problemNumber d w))) =
     (if method_' d \<in> {FORWARD, BACKWARD_DATA, BACKWARD_FILTER}
      then Suc (Suc (clock_reads w)) else clock_reads w)"
    by simp_all
qed

lemma reduction_eq:
  "reduction d w =
     (if elapsed_ticks w < - (2 ^ 63) \<or> 2 ^ 63 \<le> elapsed_ticks w then Inl SignedOverflow
      else if num_repeats_' d = 0 then Inl DivisionByZero
      else static_cast_int (average_micro d w))"
  by (simp add: reduction_def average_time_def Let_def elapsed_ticks_def start_timestamp_def
      stop_timestamp_def average_micro_def duration_micro_def)

lemma reduction_positive_repeats:
  assumes "1 \<le> num_repeats_' d"
    and "- (2 ^ 63) \<le> elapsed_ticks w" and "elapsed_ticks w < 2 ^ 63"
  shows "reduction d w = static_cast_int (average_micro d w)"
  using assms by (simp add: reduction_eq)

lemma scenario_clock [simp]:
  "clock_reads (scenario_world t0 t1) = 0"
  "- (2 ^ 63) \<le> t0 \<Longrightarrow> t0 < 2 ^ 63 \<Longrightarrow> start_timestamp (scenario_world t0 t1) = t0"
  "- (2 ^ 63) \<le> t1 \<Longrightarrow> t1 < 2 ^ 63 \<Longrightarrow> stop_timestamp (scenario_world t0 t1) = t1"
  by (simp_all add: start_timestamp_def stop_timestamp_def scenario_world_def
      sint_word_of_int_64)

lemma average_micro_exact:
  assumes "elapsed_ticks w = 1000 * (num_repeats_' d * q)"
    and "\<bar>elapsed_ticks w\<bar> < 2 ^ 53" and "1 \<le> num_repeats_' d"
    and "num_repeats_' d < 2 ^ 53" and "\<bar>q\<bar> < 2 ^ 53"
  shows "average_micro d w = of_int q"
proof -
  let ?n = "num_repeats_' d"
  have "\<bar>?n * q\<bar> \<le> \<bar>1000 * (?n * q)\<bar>"
    by (simp add: abs_mult)
  then have nq: "\<bar>?n * q\<bar> < 2 ^ 53"
    using assms(1,2) by linarith
  have "double_of_int (elapsed_ticks w) = of_int (?n * q) * 1000"
    using double_of_int_exact [OF assms(2)] assms(1) by simp
  then have "double_div (double_of_int (elapsed_ticks w)) 1000 = of_int (?n * q)"
    using nq by (intro double_div_exact) simp_all
  moreover have n: "double_of_int ?n = of_int ?n"
    using assms(3,4) by (intro double_of_int_exact) simp
  moreover have "double_div (real_of_int (?n * q)) (real_of_int ?n) = of_int q"
    using assms(3,5) by (intro double_div_exact) simp_all
  ultimately show ?thesis
    by (simp add: average_micro_def)
qed

lemma scenario_average:
  "average_micro (scenario_driver m 10) (scenario_world 0 125000000) = 12500"
  using average_micro_exact [of "scenario_world 0 125000000" "scenario_driver m 10" 12500]
  by (simp add: elapsed_ticks_def)

lemma scenario_result:
  assumes "m \<in> {FORWARD, BACKWARD_DATA, BACKWARD_FILTER}"
  shows "fst (run 0 (scenario_driver m 10) (scenario_world 0 125000000)) = Inr 12500"
proof -
  have "reduction (scenario_driver m 10) (scenario_world 0 125000000) = Inr 12500"
    by (simp add: reduction_eq elapsed_ticks_def scenario_average static_cast_int_def
        truncate_def)
  then show ?thesis
    using assms by (simp add: run_result)
qed

lemma scenario_rounded_average:
  "average_micro (scenario_driver m 10) (scenario_world 0 123456789) =
     6787108751669409 / 549755813888"
proof -
  have x0: "double_of_int 123456789 = of_int 123456789"
    by (rule double_of_int_exact) simp
  have "round_double (123456789 / 1000) =
      of_int (round_half_even (123456789 / 1000 / 2 powi (16 - 52))) * 2 powi (16 - 52)"
    by (rule round_double_eval) simp_all
  also have "(123456789::real) / 1000 / 2 powi (16 - 52) =
      of_int (123456789 * 2 ^ 36) / of_int 1000"
    by simp
  also have "round_half_even (of_int (123456789 * 2 ^ 36) / of_int 1000) = 8483885939586761"
    by (subst round_half_even_divide) simp_all
  finally have x1: "round_double (123456789 / 1000) = 8483885939586761 / 68719476736"
    by simp
  have "round_double (8483885939586761 / 68719476736 / 10) =
      of_int (round_half_even (8483885939586761 / 68719476736 / 10 / 2 powi (13 - 52)))
        * 2 powi (13 - 52)"
    by (rule round_double_eval) simp_all
  also have "(8483885939586761::real) / 68719476736 / 10 / 2 powi (13 - 52) =
      of_int (8483885939586761 * 8) / of_int 10"
    by simp
  also have "round_half_even (of_int (8483885939586761 * 8) / of_int 10) = 6787108751669409"
    by (subst round_half_even_divide) simp_all
  finally have x2: "round_double (8483885939586761 / 68719476736 / 10) =
      6787108751669409 / 549755813888"
    by simp
  have n: "double_of_int 10 = of_int 10"
    by (rule double_of_int_exact) simp
  have x3: "round_double (8483885939586761 / 687194767360) =
      6787108751669409 / 549755813888"
    using x2 by simp
  show ?thesis
    by (simp add: average_micro_def elapsed_ticks_def x0 n double_div_def x1 x3)
qed

text \<open>
  Claim C2 states that the integer \<open>run\<close> returns is the elapsed time in microseconds
  divided by \<open>num_repeats_\<close> and truncated. The code computes the quotient in \<open>double\<close>,
  and converts it to \<open>int\<close>. After 9999999999999999 ns over 10000 repetitions the
  quotient truncated is 999999999, and \<open>run\<close> returns 1000000000: the count of
  nanoseconds is rounded when it becomes a \<open>double\<close>. After 2147483648000 ns in one
  repetition the quotient is one more than the largest \<open>int\<close>, and the conversion is
  undefined: no integer is returned.
\<close>

theorem run_rounded_average_counterexample:
  "fst (run 0 (scenario_driver FORWARD 10000) (scenario_world 0 9999999999999999)) =
     Inr 1000000000 \<and>
   truncate (real_of_int (9999999999999999 - 0) / 1000 / real_of_int 10000) = 999999999 \<and>
   fst (run 0 (scenario_driver BACKWARD_DATA 1) (scenario_world 0 2147483648000)) =
     Inl FloatToIntOutOfRange"
proof -
  have r: "round_double 9999999999999999 = 10000000000000000"
  proof -
    have "round_double 9999999999999999 =
        of_int (round_half_even (9999999999999999 / 2 powi (53 - 52))) * 2 powi (53 - 52)"
      by (rule round_double_eval) simp_all
    also have "(9999999999999999::real) / 2 powi (53 - 52) =
        of_int 9999999999999999 / of_int 2"
      by simp
    also have "round_half_even (of_int 9999999999999999 / of_int 2) = 5000000000000000"
      by (subst round_half_even_divide) simp_all
    finally show ?thesis by simp
  qed
  have "double_div (round_double 9999999999999999) 1000 = of_int 10000000000000"
    unfolding r by (rule double_div_exact) simp_all
  moreover have "double_of_int 10000 = of_int 10000"
    by (rule double_of_int_exact) simp
  moreover have "double_div (real_of_int 10000000000000) (real_of_int 10000) =
      of_int 1000000000"
    by (rule double_div_exact) simp_all
  ultimately have "average_micro (scenario_driver FORWARD 10000)
      (scenario_world 0 9999999999999999) = 1000000000"
    by (simp add: average_micro_def elapsed_ticks_def double_of_int_def)
  then have a: "fst (run 0 (scenario_driver FORWARD 10000)
      (scenario_world 0 9999999999999999)) = Inr 1000000000"
    by (simp add: run_result reduction_eq elapsed_ticks_def static_cast_int_def truncate_def)
  have b: "truncate (real_of_int (9999999999999999 - 0) / 1000 / real_of_int 10000) =
      999999999"
    by (simp add: truncate_def)
  have "average_micro (scenario_driver BACKWARD_DATA 1) (scenario_world 0 2147483648000) =
      of_int 2147483648"
    by (rule average_micro_exact) (simp_all add: elapsed_ticks_def)
  then have c: "fst (run 0 (scenario_driver BACKWARD_DATA 1)
      (scenario_world 0 2147483648000)) = Inl FloatToIntOutOfRange"
    by (simp add: run_result reduction_eq elapsed_ticks_def static_cast_int_def truncate_def)
  show ?thesis
    using a b c by simp
qed

text \<open>
  Claim C2, amended. On a driver with a device, for an index in the catalog, each of the
  three methods and every \<open>num_repeats_\<close> of at least one: when the difference of the
  stop and the start timestamp fits the clock's signed 64-bit count of nanoseconds, what
  \<open>run\<close> returns is the conversion to \<open>int\<close> of the average computed in \<open>double\<close>,
  namely the difference converted to \<open>double\<close>, divided by 1000 and then by
  \<open>num_repeats_\<close> converted to \<open>double\<close>, each operation rounded to the nearest
  \<open>double\<close>. So an integer returned by \<open>run\<close> is that average truncated toward zero,
  and \<open>run\<close> returns it whenever it is representable as an \<open>int\<close>; when it is not, the
  conversion is undefined, and when the difference does not fit, the subtraction is. The
  two timestamps are the only readings of the clock the call takes.
\<close>

theorem run_returns_truncated_average:
  assumes "gpus_' d \<noteq> []" and "valid_index d problemNumber"
    and "method_' d \<in> {FORWARD, BACKWARD_DATA, BACKWARD_FILTER}"
    and "1 \<le> num_repeats_' d"
  shows "fst (run problemNumber d w) =
           (if - (2 ^ 63) \<le> stop_timestamp w - start_timestamp w \<and>
               stop_timestamp w - start_timestamp w < 2 ^ 63
            then static_cast_int
              (double_div
                (double_div (double_of_int (stop_timestamp w - start_timestamp w)) 1000)
                (double_of_int (num_repeats_' d)))
            else Inl SignedOverflow) \<and>
         (\<forall>v. fst (run problemNumber d w) = Inr v \<longrightarrow> v = truncate (average_micro d w)) \<and>
         (- (2 ^ 63) \<le> elapsed_ticks w \<and> elapsed_ticks w < 2 ^ 63 \<and>
          - 2147483648 \<le> truncate (average_micro d w) \<and>
          truncate (average_micro d w) \<le> 2147483647 \<longrightarrow>
            fst (run problemNumber d w) = Inr (truncate (average_micro d w))) \<and>
         clock_reads (snd (snd (run problemNumber d w))) = clock_reads w + 2"
proof -
  have r: "fst (run problemNumber d w) = reduction d w"
    using run_result(1) [OF assms(1,2)] assms(3) by simp
  have c: "clock_reads (snd (snd (run problemNumber d w))) = clock_reads w + 2"
    using run_result(2) [OF assms(1,2)] assms(3) by simp
  have n: "num_repeats_' d \<noteq> 0"
    using assms(4) by simp
  have 1: "fst (run problemNumber d w) =
           (if - (2 ^ 63) \<le> stop_timestamp w - start_timestamp w \<and>
               stop_timestamp w - start_timestamp w < 2 ^ 63
            then static_cast_int
              (double_div
                (double_div (double_of_int (stop_timestamp w - start_timestamp w)) 1000)
                (double_of_int (num_repeats_' d)))
            else Inl SignedOverflow)"
    unfolding r reduction_eq using n
    by (auto simp add: average_micro_def elapsed_ticks_def)
  have 2: "v = truncate (average_micro d w)" if "fst (run problemNumber d w) = Inr v" for v
    using that n unfolding r reduction_eq
    by (auto simp add: static_cast_int_def split: if_splits)
  have 3: "fst (run problemNumber d w) = Inr (truncate (average_micro d w))"
    if "- (2 ^ 63) \<le> elapsed_ticks w" and "elapsed_ticks w < 2 ^ 63"
      and "- 2147483648 \<le> truncate (average_micro d w)"
      and "truncate (average_micro d w) \<le> 2147483647"
    using that n unfolding r reduction_eq by (simp add: static_cast_int_def)
  show ?thesis
    using 1 2 3 c by blast
qed

text \<open>
  C2 (amended) at the scenario. With two repetitions in 25000 ns the average is 12.5
  microseconds, and \<open>run\<close> returns 12. With ten repetitions in 123456789 ns neither
  division is exact: the average is the \<open>double\<close> nearest to 12345.6789, and \<open>run\<close>
  returns 12345.
\<close>

theorem run_returns_truncated_average_witness:
  "fst (run 0 (scenario_driver FORWARD 2) (scenario_world 0 25000)) = Inr 12 \<and>
   clock_reads (snd (snd (run 0 (scenario_driver FORWARD 2) (scenario_world 0 25000)))) = 2 \<and>
   fst (run 0 (scenario_driver FORWARD 10) (scenario_world 0 123456789)) = Inr 12345"
proof -
  let ?d = "scenario_driver FORWARD 2" and ?w = "scenario_world 0 25000"
  have a1: "gpus_' ?d \<noteq> []" and a2: "valid_index ?d 0"
    and a3: "method_' ?d \<in> {FORWARD, BACKWARD_DATA, BACKWARD_FILTER}"
    and a4: "1 \<le> num_repeats_' ?d"
    by simp_all
  have "double_of_int 25000 = of_int 25000"
    by (rule double_of_int_exact) simp
  moreover have "double_div (real_of_int 25000) 1000 = of_int 25"
    by (rule double_div_exact) simp_all
  moreover have "double_of_int 2 = of_int 2"
    by (rule double_of_int_exact) simp
  moreover have "double_div (real_of_int 25) (real_of_int 2) = 25 / 2"
    unfolding double_div_def using round_double_exact [of 25 "- 1"] by simp
  ultimately have avg: "average_micro ?d ?w = 25 / 2"
    by (simp add: average_micro_def elapsed_ticks_def)
  have t: "truncate (average_micro ?d ?w) = 12"
    unfolding avg by (simp add: truncate_def)
  note inst = run_returns_truncated_average [OF a1 a2 a3 a4, of ?w]
  from inst have "- (2 ^ 63) \<le> elapsed_ticks ?w \<and> elapsed_ticks ?w < 2 ^ 63 \<and>
      - 2147483648 \<le> truncate (average_micro ?d ?w) \<and>
      truncate (average_micro ?d ?w) \<le> 2147483647 \<longrightarrow>
      fst (run 0 ?d ?w) = Inr (truncate (average_micro ?d ?w))"
    by blast
  moreover from inst have "clock_reads (snd (snd (run 0 ?d ?w))) = clock_reads ?w + 2"
    by blast
  ultimately have first: "fst (run 0 ?d ?w) = Inr 12"
    "clock_reads (snd (snd (run 0 ?d ?w))) = 2"
    by (simp_all add: t elapsed_ticks_def)
  let ?d' = "scenario_driver FORWARD 10" and ?w' = "scenario_world 0 123456789"
  have b1: "gpus_' ?d' \<noteq> []" and b2: "valid_index ?d' 0"
    and b3: "method_' ?d' \<in> {FORWARD, BACKWARD_DATA, BACKWARD_FILTER}"
    and b4: "1 \<le> num_repeats_' ?d'"
    by simp_all
  have t': "truncate (average_micro ?d' ?w') = 12345"
    unfolding scenario_rounded_average by (simp add: truncate_def)
  from run_returns_truncated_average [OF b1 b2 b3 b4, of ?w']
  have "- (2 ^ 63) \<le> elapsed_ticks ?w' \<and> elapsed_ticks ?w' < 2 ^ 63 \<and>
      - 2147483648 \<le> truncate (average_micro ?d' ?w') \<and>
      truncate (average_micro ?d' ?w') \<le> 2147483647 \<longrightarrow>
      fst (run 0 ?d' ?w') = Inr (truncate (average_micro ?d' ?w'))"
    by blast
  then have "fst (run 0 ?d' ?w') = Inr 12345"
    by (simp add: t' elapsed_ticks_def)
  with first show ?thesis
    by simp
qed

subsection \<open>Facts shared by the claims below\<close>

lemma run_configuration:
  "configuration (fst (snd (run problemNumber d w))) = configuration d"
proof (cases "gpus_' d")
  case Nil
  then show ?thesis by (simp add: run_no_device)
next
  case g: (Cons g gs)
  show ?thesis
  proof (cases "valid_index d problemNumber")
    case False
    then show ?thesis by (simp add: run_index_error_eq [OF g])
  next
    case v: True
    consider (fwd) "method_' d = FORWARD" | (bwd) "method_' d = BACKWARD_DATA"
      | (bwf) "method_' d = BACKWARD_FILTER"
      | (other) "method_' d \<notin> {FORWARD, BACKWARD_DATA, BACKWARD_FILTER}"
      by auto
    then show ?thesis
    proof cases
      case fwd
      then show ?thesis
        by (simp add: run_trace_forward [OF g v fwd] Let_def configuration_def)
    next
      case bwd
      then show ?thesis
        by (simp add: run_trace_backwardData [OF g v bwd] Let_def configuration_def)
    next
      case bwf
      then show ?thesis
        by (simp add: run_trace_backwardFilter [OF g v bwf] Let_def configuration_def)
    next
      case other
      then show ?thesis
        by (simp add: run_trace_default [OF g v other] configuration_def)
    qed
  qed
qed

lemma run_engine_events:
  assumes "gpus_' d \<noteq> []" and v: "valid_index d problemNumber"
  shows "filter engine_construction (emitted w (snd (snd (run problemNumber d w)))) =
     [CudnnConvNew (problems_' d ! nat problemNumber) (hd (gpus_' d))]"
proof -
  obtain g gs where g: "gpus_' d = g # gs"
    using assms(1) by (cases "gpus_' d") auto
  consider (fwd) "method_' d = FORWARD" | (bwd) "method_' d = BACKWARD_DATA"
    | (bwf) "method_' d = BACKWARD_FILTER"
    | (other) "method_' d \<notin> {FORWARD, BACKWARD_DATA, BACKWARD_FILTER}"
    by auto
  then show ?thesis
  proof cases
    case fwd
    then show ?thesis
      by (simp add: run_trace_forward [OF g v fwd] Let_def timing_filter_timed g)
  next
    case bwd
    then show ?thesis
      by (simp add: run_trace_backwardData [OF g v bwd] Let_def timing_filter_timed g)
  next
    case bwf
    then show ?thesis
      by (simp add: run_trace_backwardFilter [OF g v bwf] Let_def timing_filter_timed g)
  next
    case other
    then show ?thesis
      by (simp add: run_trace_default [OF g v other] g)
  qed
qed

lemma run_success:
  assumes "fst (run problemNumber d w) = Inr v"
  shows "gpus_' d \<noteq> []" and "valid_index d problemNumber"
proof -
  show g: "gpus_' d \<noteq> []"
    using assms by (auto simp add: run_no_device)
  then obtain g gs where "gpus_' d = g # gs"
    by (cases "gpus_' d") auto
  then have "\<not> valid_index d problemNumber \<Longrightarrow> fst (run problemNumber d w) = Inl IndexError"
    by (simp add: run_index_error_eq)
  then show "valid_index d problemNumber"
    using assms by auto
qed

subsection \<open>C3: an index outside the catalog\<close>

text \<open>
  Claim C3. On a driver with a device, a call of \<open>run\<close> with an index outside the
  catalog ends with the \<open>IndexError\<close> of the lookup. The lookup is the only call it makes:
  no engine is constructed, no buffer is allocated, the clock is not read, and the driver
  is exactly as it was.
\<close>

theorem run_invalid_index:
  assumes "gpus_' d \<noteq> []" and "\<not> valid_index d problemNumber"
  shows "fst (run problemNumber d w) = Inl IndexError \<and>
         fst (snd (run problemNumber d w)) = d \<and>
         emitted w (snd (snd (run problemNumber d w))) = [ProblemSetGet problemNumber] \<and>
         filter engine_construction (emitted w (snd (snd (run problemNumber d w)))) = [] \<and>
         filter allocation (emitted w (snd (snd (run problemNumber d w)))) = [] \<and>
         clock_reads (snd (snd (run problemNumber d w))) = clock_reads w"
proof -
  obtain g gs where g: "gpus_' d = g # gs"
    using assms(1) by (cases "gpus_' d") auto
  show ?thesis
    by (simp add: run_index_error_eq [OF g assms(2)])
qed

text \<open>
  C3 at a catalog of five problems and index 7.
\<close>

theorem run_invalid_index_witness:
  "fst (run 7 ((scenario_driver FORWARD 10)\<lparr>problems_' := replicate 5 scenario_problem\<rparr>)
     (scenario_world 0 0)) = Inl IndexError \<and>
   emitted (scenario_world 0 0)
     (snd (snd (run 7 ((scenario_driver FORWARD 10)\<lparr>problems_' := replicate 5 scenario_problem\<rparr>)
       (scenario_world 0 0)))) = [ProblemSetGet 7]"
  using run_invalid_index
    [of "(scenario_driver FORWARD 10)\<lparr>problems_' := replicate 5 scenario_problem\<rparr>" 7
      "scenario_world 0 0"]
  by (simp add: valid_index_def scenario_driver_def)

subsection \<open>C4: construction\<close>

text \<open>
  Claim C4 states that construction fails with a construction error when the device
  context cannot be initialised or the generator cannot be created. No status is
  examined, so this is not so: in \<open>status_world 3 0\<close> the call \<open>cudaFree(0)\<close> returns an
  error status and the constructor yields a driver as if it had succeeded.
\<close>

theorem construction_ignores_status_counterexample:
  "cudaFree_status (status_world 3 0) \<noteq> 0 \<and>
   fst (CudnnConvDriver_new FORWARD [scenario_problem] 10 [0] raw_storage (status_world 3 0)) =
     Inr (scenario_driver FORWARD 10)"
  by (simp add: status_world_def raw_storage_def scenario_driver_def CudnnConvDriver_new_def
      cudaFree_def curandCreateGenerator_def curandSetPseudoRandomGeneratorSeed_def Let_def)

text \<open>
  Claim C4, amended. The constructor examines none of the status codes and raises no
  construction error. The status of \<open>cudaFree(0)\<close> has no effect on the outcome. When
  \<open>curandCreateGenerator\<close> succeeds, the constructor makes its three calls and yields a
  driver with the given method, repeat count, device list and catalog and a generator
  seeded with 42. When \<open>curandCreateGenerator\<close> fails, the constructor goes on to read
  the handle that was never assigned, to pass it to the seeding call: the behaviour is
  undefined, and no error is reported.
\<close>

theorem construction_checks_no_status:
  "fst (CudnnConvDriver_new method problems numRuns gpus raw (w\<lparr>cudaFree_status := s\<rparr>)) =
     fst (CudnnConvDriver_new method problems numRuns gpus raw w) \<and>
   (curandCreateGenerator_status w = 0 \<longrightarrow>
      fst (CudnnConvDriver_new method problems numRuns gpus raw w) =
        Inr (raw\<lparr>num_repeats_' := numRuns, gpus_' := gpus, method_' := method,
               problems_' := problems,
               curand_gen_' := \<lparr>gen_seed = 42, gen_fills = 0\<rparr>\<rparr>) \<and>
      emitted w (snd (CudnnConvDriver_new method problems numRuns gpus raw w)) =
        [CudaFree, CurandCreateGenerator, CurandSetSeed 42]) \<and>
   (curandCreateGenerator_status w \<noteq> 0 \<longrightarrow>
      fst (CudnnConvDriver_new method problems numRuns gpus raw w) = Inl IndeterminateValue \<and>
      emitted w (snd (CudnnConvDriver_new method problems numRuns gpus raw w)) =
        [CudaFree, CurandCreateGenerator])"
  by (simp add: CudnnConvDriver_new_def cudaFree_def curandCreateGenerator_def
      curandSetPseudoRandomGeneratorSeed_def Let_def emit_def emitted_def)

text \<open>
  C4 (amended) in two worlds: one where only \<open>cudaFree\<close> fails, one where
  \<open>curandCreateGenerator\<close> fails.
\<close>

theorem construction_checks_no_status_witness:
  "fst (CudnnConvDriver_new FORWARD [scenario_problem] 10 [0] raw_storage (status_world 3 0)) =
     Inr (scenario_driver FORWARD 10) \<and>
   fst (CudnnConvDriver_new FORWARD [scenario_problem] 10 [0] raw_storage (status_world 0 203)) =
     Inl IndeterminateValue"
  using construction_checks_no_status
      [of FORWARD "[scenario_problem]" 10 "[0]" raw_storage 3 "status_world 3 0"]
    construction_checks_no_status
      [of FORWARD "[scenario_problem]" 10 "[0]" raw_storage 0 "status_world 0 203"]
  by (simp add: status_world_def raw_storage_def scenario_driver_def)

subsection \<open>C5: the three buffers\<close>

text \<open>
  Claim C5. Every measurement routine allocates exactly three buffers, two random and one
  zero-filled, and exactly one of the three has the dimensions the engine reports: the
  zero-filled output for \<open>FORWARD\<close>, the random delta for \<open>BACKWARD_DATA\<close> and for
  \<open>BACKWARD_FILTER\<close>. The other two have the dimensions \<open>[r, s, c, k]\<close> and
  \<open>[w, h, c, n]\<close> of the problem the catalog gave for the index. The statement holds for
  every function \<open>output_dims\<close> of the world.
\<close>

theorem run_allocations:
  assumes "gpus_' d \<noteq> []" and "valid_index d problemNumber"
    and "problems_' d ! nat problemNumber =
      (w', h', c', n', k', r', s', pad_w', pad_h', wstride', hstride')"
  shows "(method_' d = FORWARD \<longrightarrow>
            filter allocation (emitted w (snd (snd (run problemNumber d w)))) =
              [TensorRand [r', s', c', k'], TensorRand [w', h', c', n'],
               TensorZeros (output_dims w
                 \<lparr>conv_shape = problems_' d ! nat problemNumber,
                  conv_device = hd (gpus_' d)\<rparr>)]) \<and>
         (method_' d = BACKWARD_DATA \<longrightarrow>
            filter allocation (emitted w (snd (snd (run problemNumber d w)))) =
              [TensorRand [r', s', c', k'],
               TensorRand (output_dims w
                 \<lparr>conv_shape = problems_' d ! nat problemNumber,
                  conv_device = hd (gpus_' d)\<rparr>),
               TensorZeros [w', h', c', n']]) \<and>
         (method_' d = BACKWARD_FILTER \<longrightarrow>
            filter allocation (emitted w (snd (snd (run problemNumber d w)))) =
              [TensorRand [w', h', c', n'],
               TensorRand (output_dims w
                 \<lparr>conv_shape = problems_' d ! nat problemNumber,
                  conv_device = hd (gpus_' d)\<rparr>),
               TensorZeros [r', s', c', k']])"
proof -
  obtain g gs where g: "gpus_' d = g # gs"
    using assms(1) by (cases "gpus_' d") auto
  have fwd: "filter allocation (emitted w (snd (snd (run problemNumber d w)))) =
      [TensorRand [r', s', c', k'], TensorRand [w', h', c', n'],
       TensorZeros (output_dims w
         \<lparr>conv_shape = problems_' d ! nat problemNumber, conv_device = hd (gpus_' d)\<rparr>)]"
    if m: "method_' d = FORWARD"
    by (simp add: run_trace_forward [OF g assms(2) m] Let_def timing_filter_timed g)
      (simp add: assms(3) unpack_def)
  have bwd: "filter allocation (emitted w (snd (snd (run problemNumber d w)))) =
      [TensorRand [r', s', c', k'],
       TensorRand (output_dims w
         \<lparr>conv_shape = problems_' d ! nat problemNumber, conv_device = hd (gpus_' d)\<rparr>),
       TensorZeros [w', h', c', n']]"
    if m: "method_' d = BACKWARD_DATA"
    by (simp add: run_trace_backwardData [OF g assms(2) m] Let_def timing_filter_timed g)
      (simp add: assms(3) unpack_def)
  have bwf: "filter allocation (emitted w (snd (snd (run problemNumber d w)))) =
      [TensorRand [w', h', c', n'],
       TensorRand (output_dims w
         \<lparr>conv_shape = problems_' d ! nat problemNumber, conv_device = hd (gpus_' d)\<rparr>),
       TensorZeros [r', s', c', k']]"
    if m: "method_' d = BACKWARD_FILTER"
    by (simp add: run_trace_backwardFilter [OF g assms(2) m] Let_def timing_filter_timed g)
      (simp add: assms(3) unpack_def)
  show ?thesis
    using fwd bwd bwf by blast
qed

text \<open>
  C5 at the scenario, for the three methods.
\<close>

theorem run_allocations_witness:
  "filter allocation (emitted (scenario_world 0 0)
     (snd (snd (run 0 (scenario_driver FORWARD 10) (scenario_world 0 0))))) =
     [TensorRand [3, 3, 3, 2], TensorRand [5, 5, 3, 1], TensorZeros [3, 3, 2, 1]] \<and>
   filter allocation (emitted (scenario_world 0 0)
     (snd (snd (run 0 (scenario_driver BACKWARD_DATA 10) (scenario_world 0 0))))) =
     [TensorRand [3, 3, 3, 2], TensorRand [3, 3, 2, 1], TensorZeros [5, 5, 3, 1]] \<and>
   filter allocation (emitted (scenario_world 0 0)
     (snd (snd (run 0 (scenario_driver BACKWARD_FILTER 10) (scenario_world 0 0))))) =
     [TensorRand [5, 5, 3, 1], TensorRand [3, 3, 2, 1], TensorZeros [3, 3, 3, 2]]"
proof -
  have p: "problems_' (scenario_driver m 10) ! nat 0 = (5, 5, 3, 1, 2, 3, 3, 0, 0, 1, 1)"
    for m
    by (simp add: scenario_problem_def)
  have a1: "gpus_' (scenario_driver m 10) \<noteq> []" and a2: "valid_index (scenario_driver m 10) 0"
    for m
    by simp_all
  have o: "output_dims (scenario_world 0 0) conv = [3, 3, 2, 1]" for conv
    by (simp add: scenario_world_def)
  show ?thesis
    using run_allocations [OF a1 a2 p, of FORWARD "scenario_world 0 0"]
      run_allocations [OF a1 a2 p, of BACKWARD_DATA "scenario_world 0 0"]
      run_allocations [OF a1 a2 p, of BACKWARD_FILTER "scenario_world 0 0"]
    by (simp add: o)
qed

subsection \<open>C6: one engine per call\<close>

text \<open>
  Claim C6. A call of \<open>run\<close> that returns an integer constructs exactly one engine, from
  the problem the catalog holds at the index and from the first device of the list. The
  driver has no member that could keep an engine, and a later call that returns
  constructs an engine of its own, from its own index, in the same way.
\<close>

theorem run_constructs_one_engine:
  assumes "fst (run problemNumber d w) = Inr v"
  shows "filter engine_construction (emitted w (snd (snd (run problemNumber d w)))) =
           [CudnnConvNew (problems_' d ! nat problemNumber) (hd (gpus_' d))] \<and>
         (\<forall>later v'.
            fst (run later (fst (snd (run problemNumber d w))) (snd (snd (run problemNumber d w))))
              = Inr v' \<longrightarrow>
            filter engine_construction
              (emitted (snd (snd (run problemNumber d w)))
                (snd (snd (run later (fst (snd (run problemNumber d w)))
                  (snd (snd (run problemNumber d w))))))) =
              [CudnnConvNew (problems_' d ! nat later) (hd (gpus_' d))])"
proof -
  define d1 where "d1 = fst (snd (run problemNumber d w))"
  define w1 where "w1 = snd (snd (run problemNumber d w))"
  have c: "gpus_' d1 = gpus_' d" "problems_' d1 = problems_' d"
    using run_configuration [of problemNumber d w]
    by (simp_all add: configuration_def d1_def)
  have first: "filter engine_construction (emitted w w1) =
      [CudnnConvNew (problems_' d ! nat problemNumber) (hd (gpus_' d))]"
    unfolding w1_def using run_success [OF assms] by (rule run_engine_events)
  have second: "filter engine_construction (emitted w1 (snd (snd (run later d1 w1)))) =
      [CudnnConvNew (problems_' d ! nat later) (hd (gpus_' d))]"
    if "fst (run later d1 w1) = Inr v'" for later v'
    using run_engine_events [OF run_success [OF that], of w1] by (simp add: c)
  show ?thesis
    using first second unfolding d1_def w1_def by blast
qed

text \<open>
  C6 at the scenario.
\<close>

theorem run_constructs_one_engine_witness:
  "fst (run 0 (scenario_driver FORWARD 10) (scenario_world 0 125000000)) = Inr 12500 \<and>
   filter engine_construction (emitted (scenario_world 0 125000000)
     (snd (snd (run 0 (scenario_driver FORWARD 10) (scenario_world 0 125000000))))) =
     [CudnnConvNew scenario_problem 0]"
proof -
  let ?d = "scenario_driver FORWARD 10" and ?w = "scenario_world 0 125000000"
  have r: "fst (run 0 ?d ?w) = Inr 12500"
    by (rule scenario_result) simp
  from run_constructs_one_engine [OF r] have
    "filter engine_construction (emitted ?w (snd (snd (run 0 ?d ?w)))) =
       [CudnnConvNew (problems_' ?d ! nat 0) (hd (gpus_' ?d))]"
    by blast
  with r show ?thesis
    by simp
qed

subsection \<open>C7: the configuration is not changed\<close>

text \<open>
  Claim C7. For every index, every driver and every world, \<open>run\<close> leaves the method, the
  repeat count, the device list and the catalog as they were; so they are still the same
  after a second call with the same index.
\<close>

theorem run_keeps_configuration:
  "configuration (fst (snd (run problemNumber d w))) = configuration d \<and>
   configuration (fst (snd (run problemNumber (fst (snd (run problemNumber d w)))
     (snd (snd (run problemNumber d w)))))) = configuration d"
  by (simp add: run_configuration)

text \<open>
  C7 at the scenario.
\<close>

theorem run_keeps_configuration_witness:
  "configuration (fst (snd (run 0 (scenario_driver FORWARD 10) (scenario_world 0 123456789)))) =
     (FORWARD, 10, [0], [scenario_problem])"
  using run_keeps_configuration [of 0 "scenario_driver FORWARD 10" "scenario_world 0 123456789"]
  by (simp add: configuration_def)

subsection \<open>C8: the sign of the result\<close>

lemma truncate_nonneg: "0 \<le> x \<Longrightarrow> 0 \<le> truncate x"
  by (simp add: truncate_def)

lemma average_micro_nonneg:
  assumes "1 \<le> num_repeats_' d" and "start_timestamp w \<le> stop_timestamp w"
  shows "0 \<le> average_micro d w"
proof -
  have "0 \<le> double_of_int (elapsed_ticks w)"
    using assms(2) by (intro double_of_int_nonneg) (simp add: elapsed_ticks_def)
  then have "0 \<le> double_div (double_of_int (elapsed_ticks w)) 1000"
    by (intro double_div_nonneg) simp_all
  moreover have "0 \<le> double_of_int (num_repeats_' d)"
    using assms(1) by (intro double_of_int_nonneg) simp
  ultimately show ?thesis
    unfolding average_micro_def by (rule double_div_nonneg)
qed

text \<open>
  Claim C8 states that \<open>run\<close> returns a non-negative integer for every valid index and
  every repeat count of at least one when the clock does not go backward. With one
  repetition that takes 2147483648 microseconds the average is one more than the largest
  \<open>int\<close>: the conversion of the \<open>double\<close> is undefined and no non-negative integer is
  returned.
\<close>

theorem run_overflow_counterexample:
  "gpus_' (scenario_driver FORWARD 1) \<noteq> [] \<and>
   valid_index (scenario_driver FORWARD 1) 0 \<and>
   1 \<le> num_repeats_' (scenario_driver FORWARD 1) \<and>
   start_timestamp (scenario_world 0 2147483648000) \<le>
     stop_timestamp (scenario_world 0 2147483648000) \<and>
   fst (run 0 (scenario_driver FORWARD 1) (scenario_world 0 2147483648000)) =
     Inl FloatToIntOutOfRange"
proof -
  have "average_micro (scenario_driver FORWARD 1) (scenario_world 0 2147483648000) =
      of_int 2147483648"
    by (rule average_micro_exact) (simp_all add: elapsed_ticks_def)
  then show ?thesis
    by (simp add: run_result reduction_eq elapsed_ticks_def static_cast_int_def truncate_def)
qed

text \<open>
  Claim C8, amended. On a driver with a device, for every valid index and every repeat
  count of at least one, \<open>run\<close> returns a non-negative integer when the stop timestamp
  is not earlier than the start timestamp, their difference fits the clock's signed 64-bit
  count, and the average as the code computes it in \<open>double\<close>, truncated, does not
  exceed 2147483647, the largest \<open>int\<close>. (The calls into the engine, the catalog and
  the tensor factory are taken to return.)
\<close>

theorem run_returns_nonnegative:
  assumes "gpus_' d \<noteq> []" and "valid_index d problemNumber"
    and "1 \<le> num_repeats_' d"
    and "start_timestamp w \<le> stop_timestamp w"
    and "stop_timestamp w - start_timestamp w < 2 ^ 63"
    and "truncate
           (double_div
             (double_div (double_of_int (stop_timestamp w - start_timestamp w)) 1000)
             (double_of_int (num_repeats_' d))) \<le> 2147483647"
  shows "\<exists>v. fst (run problemNumber d w) = Inr v \<and> 0 \<le> v"
proof (cases "method_' d \<in> {FORWARD, BACKWARD_DATA, BACKWARD_FILTER}")
  case True
  have t0: "0 \<le> truncate (average_micro d w)"
    using average_micro_nonneg [OF assms(3,4)] by (rule truncate_nonneg)
  have fits: "- (2 ^ 63) \<le> elapsed_ticks w" "elapsed_ticks w < 2 ^ 63"
    using assms(4,5) by (simp_all add: elapsed_ticks_def)
  have "truncate (average_micro d w) \<le> 2147483647"
    using assms(6) by (simp add: average_micro_def elapsed_ticks_def)
  with t0 have "static_cast_int (average_micro d w) = Inr (truncate (average_micro d w))"
    by (simp add: static_cast_int_def)
  then have "fst (run problemNumber d w) = Inr (truncate (average_micro d w))"
    using run_result(1) [OF assms(1,2)] True reduction_positive_repeats [OF assms(3) fits]
    by simp
  with t0 show ?thesis
    by blast
next
  case False
  then have "fst (run problemNumber d w) = Inr 0"
    using run_result(1) [OF assms(1,2)] by simp
  then show ?thesis
    by simp
qed

text \<open>
  C8 (amended) at the scenario.
\<close>

theorem run_returns_nonnegative_witness:
  "\<exists>v. fst (run 0 (scenario_driver FORWARD 10) (scenario_world 0 125000000)) = Inr v \<and> 0 \<le> v"
proof -
  let ?d = "scenario_driver FORWARD 10" and ?w = "scenario_world 0 125000000"
  have a1: "gpus_' ?d \<noteq> []" and a2: "valid_index ?d 0" and a3: "1 \<le> num_repeats_' ?d"
    and a4: "start_timestamp ?w \<le> stop_timestamp ?w"
    and a5: "stop_timestamp ?w - start_timestamp ?w < 2 ^ 63"
    by simp_all
  have a6: "truncate
      (double_div (double_div (double_of_int (stop_timestamp ?w - start_timestamp ?w)) 1000)
        (double_of_int (num_repeats_' ?d))) \<le> 2147483647"
    using scenario_average [of FORWARD]
    by (simp add: average_micro_def elapsed_ticks_def truncate_def)
  show ?thesis
    using a1 a2 a3 a4 a5 a6 by (rule run_returns_nonnegative)
qed

subsection \<open>C9: a method value outside the enumerators\<close>

text \<open>
  Claim C9. When the method of the driver is none of the three enumerators (and the
  driver has a device and the index is in the catalog), \<open>run\<close> looks the problem up and
  constructs the engine, and does nothing else: no plan is initialised, no buffer is
  allocated, nothing is submitted, no barrier is issued, the clock is not read and the
  generator is not advanced. It returns 0.
\<close>

theorem run_unknown_method:
  assumes "gpus_' d \<noteq> []" and "valid_index d problemNumber"
    and "method_' d \<notin> {FORWARD, BACKWARD_DATA, BACKWARD_FILTER}"
  shows "fst (run problemNumber d w) = Inr 0 \<and>
         emitted w (snd (snd (run problemNumber d w))) =
           [ProblemSetGet problemNumber,
            CudnnConvNew (problems_' d ! nat problemNumber) (hd (gpus_' d))] \<and>
         clock_reads (snd (snd (run problemNumber d w))) = clock_reads w \<and>
         curand_gen_' (fst (snd (run problemNumber d w))) = curand_gen_' d"
proof -
  obtain g gs where g: "gpus_' d = g # gs"
    using assms(1) by (cases "gpus_' d") auto
  show ?thesis
    by (simp add: run_trace_default [OF g assms(2,3)] g)
qed

text \<open>
  C9 at the scenario with the method value 7.
\<close>

theorem run_unknown_method_witness:
  "fst (run 0 (scenario_driver 7 10) (scenario_world 0 123456789)) = Inr 0 \<and>
   emitted (scenario_world 0 123456789)
     (snd (snd (run 0 (scenario_driver 7 10) (scenario_world 0 123456789)))) =
     [ProblemSetGet 0, CudnnConvNew scenario_problem 0]"
  using run_unknown_method [of "scenario_driver 7 10" 0 "scenario_world 0 123456789"]
  by (simp add: FORWARD_def BACKWARD_DATA_def BACKWARD_FILTER_def)

subsection \<open>C10: the partial operations\<close>

text \<open>
  Claim C10 states that under the preconditions of construction (a repeat count of at
  least one and a device list that is not empty) every partial operation inside \<open>run\<close>
  is well defined, and names the access to the first device and the division by
  \<open>num_repeats_\<close>. The conversion of the quotient to \<open>int\<close> is a third partial
  operation, and the preconditions do not make it defined: two repetitions that take
  4294967296 microseconds together average one more than the largest \<open>int\<close>.
\<close>

theorem run_conversion_undefined_counterexample:
  "1 \<le> num_repeats_' (scenario_driver BACKWARD_FILTER 2) \<and>
   gpus_' (scenario_driver BACKWARD_FILTER 2) \<noteq> [] \<and>
   valid_index (scenario_driver BACKWARD_FILTER 2) 0 \<and>
   fst (run 0 (scenario_driver BACKWARD_FILTER 2) (scenario_world 1000 4294967297000)) =
     Inl FloatToIntOutOfRange"
proof -
  have "average_micro (scenario_driver BACKWARD_FILTER 2)
      (scenario_world 1000 4294967297000) = of_int 2147483648"
    by (rule average_micro_exact) (simp_all add: elapsed_ticks_def)
  then show ?thesis
    by (simp add: run_result reduction_eq elapsed_ticks_def static_cast_int_def truncate_def)
qed

text \<open>
  Claim C10, amended. Under the preconditions of construction, the first element of the
  device list exists, so \<open>run\<close> never ends in an out-of-range subscript; and the divisor
  \<open>num_repeats_\<close> is strictly positive, also as a \<open>double\<close>, so none of the three
  routines, and no call of \<open>run\<close>, ends in a division by zero. The other partial
  operations are defined exactly as follows. The lookup ends the call with
  \<open>IndexError\<close> exactly when the index is outside the catalog. With an index in the
  catalog and one of the three methods, the subtraction of the timestamps is undefined
  exactly when their difference does not fit a signed 64-bit count, and otherwise the
  conversion of the average to \<open>int\<close> is undefined exactly when its truncation is not an
  \<open>int\<close>.
\<close>

theorem run_partial_operations_defined:
  assumes "1 \<le> num_repeats_' d" and "gpus_' d \<noteq> []"
  shows "0 < length (gpus_' d) \<and>
         fst (run problemNumber d w) \<noteq> Inl VectorSubscriptOutOfRange \<and>
         0 < num_repeats_' d \<and>
         0 < double_of_int (num_repeats_' d) \<and>
         fst (forward conv d w) \<noteq> Inl DivisionByZero \<and>
         fst (backwardFilter conv d w) \<noteq> Inl DivisionByZero \<and>
         fst (backwardData conv d w) \<noteq> Inl DivisionByZero \<and>
         fst (run problemNumber d w) \<noteq> Inl DivisionByZero \<and>
         (fst (run problemNumber d w) = Inl IndexError \<longleftrightarrow>
            \<not> valid_index d problemNumber) \<and>
         (fst (run problemNumber d w) = Inl SignedOverflow \<longleftrightarrow>
            valid_index d problemNumber \<and>
            method_' d \<in> {FORWARD, BACKWARD_DATA, BACKWARD_FILTER} \<and>
            (elapsed_ticks w < - (2 ^ 63) \<or> 2 ^ 63 \<le> elapsed_ticks w)) \<and>
         (fst (run problemNumber d w) = Inl FloatToIntOutOfRange \<longleftrightarrow>
            valid_index d problemNumber \<and>
            method_' d \<in> {FORWARD, BACKWARD_DATA, BACKWARD_FILTER} \<and>
            - (2 ^ 63) \<le> elapsed_ticks w \<and> elapsed_ticks w < 2 ^ 63 \<and>
            (truncate (average_micro d w) < - 2147483648 \<or>
             2147483647 < truncate (average_micro d w)))"
proof -
  obtain g gs where g: "gpus_' d = g # gs"
    using assms(2) by (cases "gpus_' d") auto
  have n: "num_repeats_' d \<noteq> 0" "0 < num_repeats_' d"
    using assms(1) by simp_all
  have dn: "0 < double_of_int (num_repeats_' d)"
    using n(2) by (rule double_of_int_pos)
  have red: "reduction d v \<noteq> Inl DivisionByZero"
    "reduction d v \<noteq> Inl VectorSubscriptOutOfRange"
    "reduction d v \<noteq> Inl IndexError"
    "reduction d v = Inl SignedOverflow \<longleftrightarrow>
       elapsed_ticks v < - (2 ^ 63) \<or> 2 ^ 63 \<le> elapsed_ticks v"
    "reduction d v = Inl FloatToIntOutOfRange \<longleftrightarrow>
       - (2 ^ 63) \<le> elapsed_ticks v \<and> elapsed_ticks v < 2 ^ 63 \<and>
       (truncate (average_micro d v) < - 2147483648 \<or>
        2147483647 < truncate (average_micro d v))"
    for v
    using n(1) by (auto simp add: reduction_eq static_cast_int_def)
  have run: "fst (run problemNumber d w) \<noteq> Inl VectorSubscriptOutOfRange \<and>
         fst (run problemNumber d w) \<noteq> Inl DivisionByZero \<and>
         (fst (run problemNumber d w) = Inl IndexError \<longleftrightarrow>
            \<not> valid_index d problemNumber) \<and>
         (fst (run problemNumber d w) = Inl SignedOverflow \<longleftrightarrow>
            valid_index d problemNumber \<and>
            method_' d \<in> {FORWARD, BACKWARD_DATA, BACKWARD_FILTER} \<and>
            (elapsed_ticks w < - (2 ^ 63) \<or> 2 ^ 63 \<le> elapsed_ticks w)) \<and>
         (fst (run problemNumber d w) = Inl FloatToIntOutOfRange \<longleftrightarrow>
            valid_index d problemNumber \<and>
            method_' d \<in> {FORWARD, BACKWARD_DATA, BACKWARD_FILTER} \<and>
            - (2 ^ 63) \<le> elapsed_ticks w \<and> elapsed_ticks w < 2 ^ 63 \<and>
            (truncate (average_micro d w) < - 2147483648 \<or>
             2147483647 < truncate (average_micro d w)))"
  proof (cases "valid_index d problemNumber")
    case True
    show ?thesis
    proof (cases "method_' d \<in> {FORWARD, BACKWARD_DATA, BACKWARD_FILTER}")
      case m: True
      have r: "fst (run problemNumber d w) = reduction d w"
        using run_result(1) [OF assms(2) True, of w] m by simp
      show ?thesis
        unfolding r using red [of w] True m by simp
    next
      case False
      then have "fst (run problemNumber d w) = Inr 0"
        using run_result(1) [OF assms(2) True, of w] by simp
      then show ?thesis
        using True False by simp
    qed
  next
    case False
    then show ?thesis
      by (simp add: run_index_error_eq [OF g])
  qed
  have routines: "fst (forward conv d w) \<noteq> Inl DivisionByZero"
    "fst (backwardFilter conv d w) \<noteq> Inl DivisionByZero"
    "fst (backwardData conv d w) \<noteq> Inl DivisionByZero"
    using red(1) by (simp_all add: forward_eq backwardFilter_eq backwardData_eq)
  show ?thesis
    using assms n(2) dn run routines by simp
qed

text \<open>
  C10 (amended) at the scenario.
\<close>

theorem run_partial_operations_defined_witness:
  "0 < length (gpus_' (scenario_driver FORWARD 10)) \<and>
   fst (run 0 (scenario_driver FORWARD 10) (scenario_world 0 123456789)) \<noteq>
     Inl VectorSubscriptOutOfRange \<and>
   fst (run 0 (scenario_driver FORWARD 10) (scenario_world 0 123456789)) \<noteq>
     Inl DivisionByZero"
proof -
  have a1: "1 \<le> num_repeats_' (scenario_driver FORWARD 10)"
    and a2: "gpus_' (scenario_driver FORWARD 10) \<noteq> []"
    by simp_all
  show ?thesis
    using run_partial_operations_defined [OF a1 a2, of 0 "scenario_world 0 123456789"]
    by blast
qed

end
